theory Spec2Isabelle
  imports Main "HOL-Library.Word" "HOL-Library.Sublist"
begin

unbundle bit_operations_syntax

section \<open>The digital evidence contract\<close>

text \<open>
  The ledger is the Vyper contract of the repository (version pragma 0.3.7). Its storage
  is a record, every external function a HOL function from the call environment
  (\<open>msg.sender\<close>, \<open>block.timestamp\<close>), the arguments and the storage to either a revert
  reason or the new storage. A failed \<open>assert\<close>, a \<open>raise\<close>, an overflowing checked
  addition and an \<open>append\<close> to a full \<open>DynArray\<close> all revert the call, and a reverted
  call writes nothing: that is the \<open>Inl\<close> branch, which carries no storage.

  \<open>uint256\<close> and \<open>bytes32\<close> are 256-bit words, \<open>address\<close> a 160-bit word, and
  \<open>empty(address)\<close>, \<open>empty(bytes32)\<close> are the zero words. A \<open>HashMap\<close> is a total
  function: a key never written holds the zero value of its type. \<open>String[N]\<close> is a
  \<open>string\<close>, a list of bytes. An external function decodes its arguments before its
  body runs and reverts when a \<open>String[N]\<close> argument is longer than \<open>N\<close> bytes:
  that check opens the model of every function that takes strings.
\<close>

type_synonym uint256 = "256 word"
type_synonym bytes32 = "256 word"
type_synonym address = "160 word"

subsection \<open>Enums and constants\<close>

datatype Status = Collected | InAnalysis | Archived | Invalidated

definition ROLE_ADMIN :: uint256 where "ROLE_ADMIN = 1"
definition ROLE_POLICE :: uint256 where "ROLE_POLICE = 2"
definition ROLE_LAB :: uint256 where "ROLE_LAB = 4"
definition ROLE_JUDGE :: uint256 where "ROLE_JUDGE = 8"

subsection \<open>Structs\<close>

text \<open>
  The field \<open>id\<close> of the struct \<open>Evidence\<close> is \<open>ev_id\<close> here and the fields
  \<open>file_hash\<close>, \<open>ipfs_cid\<close> of \<open>EvidenceFile\<close> are \<open>ef_file_hash\<close>, \<open>ef_ipfs_cid\<close>:
  the first name is the identity function of HOL, the other two are fields of
  \<open>Evidence\<close> already.
\<close>

record Evidence =
  ev_id :: uint256
  file_hash :: bytes32
  ipfs_cid :: string
  description :: string
  case_id :: string
  creator :: address
  current_custodian :: address
  created_at :: uint256
  status :: Status
  exists :: bool

record CustodyEvent =
  from_address :: address
  to_address :: address
  timestamp :: uint256
  reason :: string

record EvidenceFile =
  ef_file_hash :: bytes32
  ef_ipfs_cid :: string
  file_type :: string
  added_by :: address
  added_at :: uint256

text \<open>
  The zero value of \<open>Evidence\<close>, held by every slot of \<open>evidences\<close> that was never
  written. Its \<open>exists\<close> flag is false and every function checks the flag before it
  reads another field. The zero value of the enum is no member of it; the slot shows
  \<open>Collected\<close> here, the member the source numbers 0.
\<close>

definition empty_Evidence :: Evidence where
  "empty_Evidence = \<lparr>ev_id = 0, file_hash = 0, ipfs_cid = [], description = [],
     case_id = [], creator = 0, current_custodian = 0, created_at = 0,
     status = Collected, exists = False\<rparr>"

subsection \<open>Events\<close>

text \<open>
  The log of a call is kept with the storage, so that a reverted call is seen to log
  nothing. \<open>StatusChanged\<close> carries the two statuses themselves where the source
  converts them to \<open>uint256\<close>.
\<close>

datatype Event =
    EvidenceRegistered uint256 bytes32 string string address uint256
  | CustodyTransferred uint256 address address string uint256
  | StatusChanged uint256 Status Status address uint256
  | EvidenceFileAdded uint256 bytes32 string string address uint256
  | RoleGranted address uint256 address
  | RoleRevoked address uint256 address

subsection \<open>State variables and the call environment\<close>

record State =
  admin :: address
  evidence_counter :: uint256
  evidences :: "uint256 \<Rightarrow> Evidence"
  custody_history :: "uint256 \<Rightarrow> CustodyEvent list"
  evidence_files :: "uint256 \<Rightarrow> EvidenceFile list"
  roles :: "address \<Rightarrow> uint256"
  registered_hashes :: "bytes32 \<Rightarrow> bool"
  logs :: "Event list"

record Env =
  msg_sender :: address
  block_timestamp :: uint256

subsection \<open>Reverts\<close>

text \<open>
  One constructor for each reason string of the source, and three for the reverts that the
  compiler adds and that carry no string: a \<open>String[N]\<close> argument longer than its
  bound, the checked \<open>+=\<close> on the counter, and \<open>append\<close> on a \<open>DynArray\<close> that
  holds as many elements as its bound.
\<close>

datatype revert =
    Only_admin
  | Unauthorized_role
  | Evidence_does_not_exist
  | Not_custodian
  | Invalid_address
  | Empty_string
  | Empty_case_ID
  | Invalid_hash
  | Invalid_role
  | Empty_IPFS_CID
  | Evidence_already_registered
  | Empty_reason
  | New_custodian_has_no_role
  | Cannot_transfer_to_self
  | Status_unchanged
  | Invalid_transition_from_Collected
  | Invalid_transition_from_InAnalysis
  | Cannot_transition_from_Archived
  | Cannot_transition_from_Invalidated
  | Empty_file_type
  | Argument_too_long
  | Counter_overflow
  | DynArray_full

text \<open>\<open>assert cond, reason\<close>, and the sequencing of a check with the rest of a body.\<close>

definition require :: "bool \<Rightarrow> revert \<Rightarrow> revert + unit" where
  "require cond r = (if cond then Inr () else Inl r)"

definition seq :: "revert + unit \<Rightarrow> revert + 'a \<Rightarrow> revert + 'a" where
  "seq c k = (case c of Inl r \<Rightarrow> Inl r | Inr _ \<Rightarrow> k)"

text \<open>Decoding an argument of type \<open>String[n]\<close>.\<close>

definition decode_String :: "nat \<Rightarrow> string \<Rightarrow> revert + unit" where
  "decode_String n str = require (length str \<le> n) Argument_too_long"

text \<open>\<open>xs.append(x)\<close> on a \<open>DynArray[_, cap]\<close>.\<close>

definition append_dyn :: "nat \<Rightarrow> 'a list \<Rightarrow> 'a \<Rightarrow> revert + 'a list" where
  "append_dyn cap xs x = (if length xs < cap then Inr (xs @ [x]) else Inl DynArray_full)"

subsection \<open>Modifiers\<close>

definition only_admin :: "Env \<Rightarrow> State \<Rightarrow> revert + unit" where
  "only_admin env s = require (msg_sender env = admin s) Only_admin"

definition only_role :: "Env \<Rightarrow> State \<Rightarrow> uint256 \<Rightarrow> revert + unit" where
  "only_role env s required_role =
     require (roles s (msg_sender env) AND required_role \<noteq> 0) Unauthorized_role"

definition evidence_exists :: "State \<Rightarrow> uint256 \<Rightarrow> revert + unit" where
  "evidence_exists s evidence_id =
     require (exists (evidences s evidence_id)) Evidence_does_not_exist"

definition only_custodian :: "Env \<Rightarrow> State \<Rightarrow> uint256 \<Rightarrow> revert + unit" where
  "only_custodian env s evidence_id =
     require (current_custodian (evidences s evidence_id) = msg_sender env) Not_custodian"

definition validate_address :: "address \<Rightarrow> revert + unit" where
  "validate_address addr = require (addr \<noteq> 0) Invalid_address"

definition validate_string :: "string \<Rightarrow> revert + unit" where
  "validate_string str = require (length str > 0) Empty_string"

definition validate_case_id :: "string \<Rightarrow> revert + unit" where
  "validate_case_id cid = require (length cid > 0) Empty_case_ID"

definition validate_hash :: "bytes32 \<Rightarrow> revert + unit" where
  "validate_hash h = require (h \<noteq> 0) Invalid_hash"

subsection \<open>Constructor\<close>

text \<open>The storage after deployment by \<open>deployer\<close>: every other slot holds its zero value.\<close>

definition init :: "address \<Rightarrow> State" where
  "init deployer = \<lparr>admin = deployer, evidence_counter = 0,
     evidences = (\<lambda>_. empty_Evidence), custody_history = (\<lambda>_. []),
     evidence_files = (\<lambda>_. []),
     roles = (\<lambda>_. 0)(deployer := ROLE_ADMIN OR ROLE_POLICE OR ROLE_LAB OR ROLE_JUDGE),
     registered_hashes = (\<lambda>_. False), logs = []\<rparr>"

subsection \<open>Role-based access control\<close>

definition grant_role :: "Env \<Rightarrow> address \<Rightarrow> uint256 \<Rightarrow> State \<Rightarrow> revert + State" where
  "grant_role env account role s =
     seq (only_admin env s)
    (seq (validate_address account)
    (seq (require (role \<in> set [ROLE_ADMIN, ROLE_POLICE, ROLE_LAB, ROLE_JUDGE]) Invalid_role)
    (Inr (s\<lparr>roles := (roles s)(account := roles s account OR role),
            logs := logs s @ [RoleGranted account role (msg_sender env)]\<rparr>))))"

definition revoke_role :: "Env \<Rightarrow> address \<Rightarrow> uint256 \<Rightarrow> State \<Rightarrow> revert + State" where
  "revoke_role env account role s =
     seq (only_admin env s)
    (seq (validate_address account)
    (seq (require (role \<in> set [ROLE_ADMIN, ROLE_POLICE, ROLE_LAB, ROLE_JUDGE]) Invalid_role)
    (Inr (s\<lparr>roles := (roles s)(account := roles s account AND NOT role),
            logs := logs s @ [RoleRevoked account role (msg_sender env)]\<rparr>))))"

definition has_role :: "State \<Rightarrow> address \<Rightarrow> uint256 \<Rightarrow> bool" where
  "has_role s account role = (roles s account AND role \<noteq> 0)"

subsection \<open>Evidence registration\<close>

definition register_evidence ::
  "Env \<Rightarrow> bytes32 \<Rightarrow> string \<Rightarrow> string \<Rightarrow> string \<Rightarrow> State \<Rightarrow> revert + (State \<times> uint256)" where
  "register_evidence env fhash cid descr cas s =
     seq (decode_String 100 cid)
    (seq (decode_String 500 descr)
    (seq (decode_String 50 cas)
    (seq (only_role env s ROLE_POLICE)
    (seq (validate_hash fhash)
    (seq (validate_string descr)
    (seq (validate_case_id cas)
    (seq (require (length cid > 0) Empty_IPFS_CID)
    (seq (require (\<not> registered_hashes s fhash) Evidence_already_registered)
    (seq (require (evidence_counter s \<noteq> - 1) Counter_overflow)
    (let evidence_id = evidence_counter s + 1;
         s1 = s\<lparr>evidence_counter := evidence_id\<rparr>;
         s2 = s1\<lparr>evidences := (evidences s1)(evidence_id :=
                \<lparr>ev_id = evidence_id, file_hash = fhash, ipfs_cid = cid,
                 description = descr, case_id = cas, creator = msg_sender env,
                 current_custodian = msg_sender env, created_at = block_timestamp env,
                 status = Collected, exists = True\<rparr>)\<rparr>;
         s3 = s2\<lparr>registered_hashes := (registered_hashes s2)(fhash := True)\<rparr>;
         initial_custody = \<lparr>from_address = 0, to_address = msg_sender env,
                 timestamp = block_timestamp env, reason = ''Initial registration''\<rparr>
     in case append_dyn 1000 (custody_history s3 evidence_id) initial_custody of
          Inl r \<Rightarrow> Inl r
        | Inr h \<Rightarrow>
            Inr (s3\<lparr>custody_history := (custody_history s3)(evidence_id := h),
                    logs := logs s3 @ [EvidenceRegistered evidence_id fhash cid cas
                              (msg_sender env) (block_timestamp env)]\<rparr>,
                 evidence_id)))))))))))"

subsection \<open>Custody management\<close>

definition transfer_custody ::
  "Env \<Rightarrow> uint256 \<Rightarrow> address \<Rightarrow> string \<Rightarrow> State \<Rightarrow> revert + State" where
  "transfer_custody env evidence_id new_custodian rsn s =
     seq (decode_String 200 rsn)
    (seq (evidence_exists s evidence_id)
    (seq (only_custodian env s evidence_id)
    (seq (validate_address new_custodian)
    (seq (require (length rsn > 0) Empty_reason)
    (seq (require (roles s new_custodian \<noteq> 0) New_custodian_has_no_role)
    (seq (require (new_custodian \<noteq> msg_sender env) Cannot_transfer_to_self)
    (let old_custodian = current_custodian (evidences s evidence_id);
         custody_event = \<lparr>from_address = old_custodian, to_address = new_custodian,
                 timestamp = block_timestamp env, reason = rsn\<rparr>
     in case append_dyn 1000 (custody_history s evidence_id) custody_event of
          Inl r \<Rightarrow> Inl r
        | Inr h \<Rightarrow>
            Inr (s\<lparr>custody_history := (custody_history s)(evidence_id := h),
                   evidences := (evidences s)(evidence_id :=
                     (evidences s evidence_id)\<lparr>current_custodian := new_custodian\<rparr>),
                   logs := logs s @ [CustodyTransferred evidence_id old_custodian
                             new_custodian rsn (block_timestamp env)]\<rparr>))))))))"

definition get_custody_history :: "State \<Rightarrow> uint256 \<Rightarrow> revert + CustodyEvent list" where
  "get_custody_history s evidence_id =
     seq (evidence_exists s evidence_id) (Inr (custody_history s evidence_id))"

definition get_current_custodian :: "State \<Rightarrow> uint256 \<Rightarrow> revert + address" where
  "get_current_custodian s evidence_id =
     seq (evidence_exists s evidence_id) (Inr (current_custodian (evidences s evidence_id)))"

subsection \<open>Status management\<close>

text \<open>
  The chain of \<open>if\<close> and \<open>elif\<close> over the old status, with its \<open>assert\<close>s and
  \<open>raise\<close>s. The four branches cover the members of the enum, so the fall-through
  after the last \<open>elif\<close> is never taken. A value of a Vyper enum is a set of its
  members; \<open>Status\<close> holds the four single members, the only values the contract ever
  stores. An argument that is no single member would differ from every stored status and
  fail the \<open>assert\<close> or meet the \<open>raise\<close> of the old status, as a member outside the
  table does.
\<close>

definition set_status :: "Env \<Rightarrow> uint256 \<Rightarrow> Status \<Rightarrow> State \<Rightarrow> revert + State" where
  "set_status env evidence_id new_status s =
     seq (evidence_exists s evidence_id)
    (seq (only_role env s (ROLE_LAB OR ROLE_JUDGE))
    (let old_status = status (evidences s evidence_id) in
     seq (require (new_status \<noteq> old_status) Status_unchanged)
    (seq (if old_status = Collected then
            require (new_status = InAnalysis \<or> new_status = Invalidated)
              Invalid_transition_from_Collected
          else if old_status = InAnalysis then
            require (new_status = Archived \<or> new_status = Invalidated)
              Invalid_transition_from_InAnalysis
          else if old_status = Archived then Inl Cannot_transition_from_Archived
          else if old_status = Invalidated then Inl Cannot_transition_from_Invalidated
          else Inr ())
    (Inr (s\<lparr>evidences := (evidences s)(evidence_id :=
               (evidences s evidence_id)\<lparr>status := new_status\<rparr>),
            logs := logs s @ [StatusChanged evidence_id old_status new_status
                      (msg_sender env) (block_timestamp env)]\<rparr>)))))"

subsection \<open>Additional files\<close>

definition add_file_to_evidence ::
  "Env \<Rightarrow> uint256 \<Rightarrow> bytes32 \<Rightarrow> string \<Rightarrow> string \<Rightarrow> State \<Rightarrow> revert + State" where
  "add_file_to_evidence env evidence_id fhash cid ftype s =
     seq (decode_String 100 cid)
    (seq (decode_String 50 ftype)
    (seq (evidence_exists s evidence_id)
    (seq (only_role env s ROLE_LAB)
    (seq (validate_hash fhash)
    (seq (require (length cid > 0) Empty_IPFS_CID)
    (seq (require (length ftype > 0) Empty_file_type)
    (let evidence_file = \<lparr>ef_file_hash = fhash, ef_ipfs_cid = cid, file_type = ftype,
                 added_by = msg_sender env, added_at = block_timestamp env\<rparr>
     in case append_dyn 100 (evidence_files s evidence_id) evidence_file of
          Inl r \<Rightarrow> Inl r
        | Inr fs \<Rightarrow>
            Inr (s\<lparr>evidence_files := (evidence_files s)(evidence_id := fs),
                   logs := logs s @ [EvidenceFileAdded evidence_id fhash cid ftype
                             (msg_sender env) (block_timestamp env)]\<rparr>))))))))"

definition get_evidence_files :: "State \<Rightarrow> uint256 \<Rightarrow> revert + EvidenceFile list" where
  "get_evidence_files s evidence_id =
     seq (evidence_exists s evidence_id) (Inr (evidence_files s evidence_id))"

subsection \<open>Queries\<close>

definition get_evidence :: "State \<Rightarrow> uint256 \<Rightarrow> revert + Evidence" where
  "get_evidence s evidence_id =
     seq (evidence_exists s evidence_id) (Inr (evidences s evidence_id))"


definition verify_integrity :: "State \<Rightarrow> uint256 \<Rightarrow> bytes32 \<Rightarrow> revert + bool" where
  "verify_integrity s evidence_id fhash =
     seq (evidence_exists s evidence_id) (Inr (file_hash (evidences s evidence_id) = fhash))"

subsection \<open>Transactions\<close>

text \<open>
  A transaction is one call of an external function that writes. \<open>exec\<close> dispatches
  it; \<open>call\<close> is the storage it leaves: the new storage when the call returns, the old
  one when it reverts. \<open>run\<close> applies a list of transactions, each with its own sender
  and block time, in order.
\<close>

datatype Op =
    Grant_role address uint256
  | Revoke_role address uint256
  | Register_evidence bytes32 string string string
  | Transfer_custody uint256 address string
  | Set_status uint256 Status
  | Add_file_to_evidence uint256 bytes32 string string

fun exec :: "Env \<Rightarrow> Op \<Rightarrow> State \<Rightarrow> revert + State" where
  "exec env (Grant_role account role) s = grant_role env account role s"
| "exec env (Revoke_role account role) s = revoke_role env account role s"
| "exec env (Register_evidence fhash cid descr cas) s =
     map_sum (\<lambda>r. r) fst (register_evidence env fhash cid descr cas s)"
| "exec env (Transfer_custody evidence_id new_custodian rsn) s =
     transfer_custody env evidence_id new_custodian rsn s"
| "exec env (Set_status evidence_id new_status) s = set_status env evidence_id new_status s"
| "exec env (Add_file_to_evidence evidence_id fhash cid ftype) s =
     add_file_to_evidence env evidence_id fhash cid ftype s"

definition call :: "Env \<Rightarrow> Op \<Rightarrow> State \<Rightarrow> State" where
  "call env op s = (case exec env op s of Inl _ \<Rightarrow> s | Inr s' \<Rightarrow> s')"

fun run :: "(Env \<times> Op) list \<Rightarrow> State \<Rightarrow> State" where
  "run [] s = s"
| "run ((env, op) # cs) s = run cs (call env op s)"

section \<open>Notions used in the statements\<close>

subsection \<open>Well-formed storage\<close>

text \<open>
  A custody history is linked when each entry hands over from the address the entry
  before it handed to. \<open>wf\<close> collects what holds of the storage after any list of
  transactions: an evidence that exists has a nonzero id no larger than the counter, stored
  under that id, and a linked, nonempty history that starts at the zero address and ends
  at its current custodian; an id without evidence has neither history nor files; no list
  is longer than its bound.
\<close>

fun chain_linked :: "CustodyEvent list \<Rightarrow> bool" where
  "chain_linked [] = True"
| "chain_linked [e] = True"
| "chain_linked (a # b # es) = (to_address a = from_address b \<and> chain_linked (b # es))"

definition custody_ok :: "CustodyEvent list \<Rightarrow> address \<Rightarrow> bool" where
  "custody_ok h c \<longleftrightarrow>
     h \<noteq> [] \<and> from_address (hd h) = 0 \<and> chain_linked h \<and> to_address (last h) = c"

definition wf :: "State \<Rightarrow> bool" where
  "wf s \<longleftrightarrow> (\<forall>i.
     (exists (evidences s i) \<longrightarrow>
        i \<noteq> 0 \<and> i \<le> evidence_counter s \<and> ev_id (evidences s i) = i \<and>
        custody_ok (custody_history s i) (current_custodian (evidences s i))) \<and>
     (\<not> exists (evidences s i) \<longrightarrow> custody_history s i = [] \<and> evidence_files s i = []) \<and>
     length (custody_history s i) \<le> 1000 \<and> length (evidence_files s i) \<le> 100)"

subsection \<open>The status table and the statuses observed\<close>

text \<open>
  The transition table as the specification gives it, to be compared with the branches
  of \<open>set_status\<close>. A list of statuses is a path through the table when every two
  consecutive entries are a row of it. \<open>status_trace cs s i\<close> lists the status of
  evidence \<open>i\<close> after each transaction of \<open>cs\<close>, run from \<open>s\<close>.
\<close>

definition allowed_transitions :: "(Status \<times> Status) list" where
  "allowed_transitions = [(Collected, InAnalysis), (Collected, Invalidated),
     (InAnalysis, Archived), (InAnalysis, Invalidated)]"

fun table_path :: "Status list \<Rightarrow> bool" where
  "table_path [] = True"
| "table_path [a] = True"
| "table_path (a # b # r) = ((a, b) \<in> set allowed_transitions \<and> table_path (b # r))"

fun status_trace :: "(Env \<times> Op) list \<Rightarrow> State \<Rightarrow> uint256 \<Rightarrow> Status list" where
  "status_trace [] s i = []"
| "status_trace ((env, op) # cs) s i =
     status (evidences (call env op s) i) # status_trace cs (call env op s) i"

subsection \<open>Failures and preconditions of the specification\<close>

text \<open>
  The specification names five kinds of failure. \<open>failure_of\<close> sorts the reverts of
  the contract into them: a caller without the role, the address or the custody asked for
  is an authorization failure, an unknown evidence id a not-found failure, a registered
  digest a duplicate failure, a pair outside the status table an invalid-transition
  failure, and every other rejected argument a validation failure. The three reverts
  without a reason string stand with the validation failures, where the specification
  puts an oversized field and an exceeded capacity.
\<close>

datatype failure =
    AuthorizationError
  | ValidationError
  | NotFoundError
  | DuplicateError
  | InvalidTransitionError

fun failure_of :: "revert \<Rightarrow> failure" where
  "failure_of Only_admin = AuthorizationError"
| "failure_of Unauthorized_role = AuthorizationError"
| "failure_of Not_custodian = AuthorizationError"
| "failure_of Evidence_does_not_exist = NotFoundError"
| "failure_of Evidence_already_registered = DuplicateError"
| "failure_of Invalid_transition_from_Collected = InvalidTransitionError"
| "failure_of Invalid_transition_from_InAnalysis = InvalidTransitionError"
| "failure_of Cannot_transition_from_Archived = InvalidTransitionError"
| "failure_of Cannot_transition_from_Invalidated = InvalidTransitionError"
| "failure_of Invalid_address = ValidationError"
| "failure_of Empty_string = ValidationError"
| "failure_of Empty_case_ID = ValidationError"
| "failure_of Invalid_hash = ValidationError"
| "failure_of Invalid_role = ValidationError"
| "failure_of Empty_IPFS_CID = ValidationError"
| "failure_of Empty_reason = ValidationError"
| "failure_of New_custodian_has_no_role = ValidationError"
| "failure_of Cannot_transfer_to_self = ValidationError"
| "failure_of Status_unchanged = ValidationError"
| "failure_of Empty_file_type = ValidationError"
| "failure_of Argument_too_long = ValidationError"
| "failure_of Counter_overflow = ValidationError"
| "failure_of DynArray_full = ValidationError"

text \<open>
  The preconditions of each operation as the specification lists them, each with the kind
  of failure the specification gives it; they follow its words, not the bodies of the
  contract. A bounded field has the bound of the contract's type, a bounded list its
  capacity. The first argument is the condition on the caller of \<open>grant_role\<close> and
  \<open>revoke_role\<close>: \<open>stated_preconditions\<close> has the one the specification states, that
  the caller holds \<open>ROLE_ADMIN\<close>; \<open>amended_preconditions\<close> has the one the contract
  checks, that the caller is the address in \<open>admin\<close>.
\<close>

fun preconditions ::
  "(Env \<Rightarrow> State \<Rightarrow> bool) \<Rightarrow> Env \<Rightarrow> Op \<Rightarrow> State \<Rightarrow> (bool \<times> failure) list" where
  "preconditions may_manage env (Grant_role account role) s =
     [(may_manage env s, AuthorizationError),
      (role \<in> {ROLE_ADMIN, ROLE_POLICE, ROLE_LAB, ROLE_JUDGE}, ValidationError),
      (account \<noteq> 0, ValidationError)]"
| "preconditions may_manage env (Revoke_role account role) s =
     [(may_manage env s, AuthorizationError),
      (role \<in> {ROLE_ADMIN, ROLE_POLICE, ROLE_LAB, ROLE_JUDGE}, ValidationError),
      (account \<noteq> 0, ValidationError)]"
| "preconditions may_manage env (Register_evidence fhash cid descr cas) s =
     [(has_role s (msg_sender env) ROLE_POLICE, AuthorizationError),
      (fhash \<noteq> 0, ValidationError),
      (descr \<noteq> [] \<and> length descr \<le> 500, ValidationError),
      (cas \<noteq> [] \<and> length cas \<le> 50, ValidationError),
      (cid \<noteq> [] \<and> length cid \<le> 100, ValidationError),
      (\<not> registered_hashes s fhash, DuplicateError)]"
| "preconditions may_manage env (Transfer_custody evidence_id new_custodian rsn) s =
     [(exists (evidences s evidence_id), NotFoundError),
      (current_custodian (evidences s evidence_id) = msg_sender env, AuthorizationError),
      (new_custodian \<noteq> 0 \<and> new_custodian \<noteq> msg_sender env, ValidationError),
      (roles s new_custodian \<noteq> 0, ValidationError),
      (rsn \<noteq> [] \<and> length rsn \<le> 200, ValidationError),
      (length (custody_history s evidence_id) < 1000, ValidationError)]"
| "preconditions may_manage env (Set_status evidence_id new_status) s =
     [(exists (evidences s evidence_id), NotFoundError),
      (has_role s (msg_sender env) (ROLE_LAB OR ROLE_JUDGE), AuthorizationError),
      (new_status \<noteq> status (evidences s evidence_id), ValidationError),
      ((status (evidences s evidence_id), new_status) \<in> set allowed_transitions,
         InvalidTransitionError)]"
| "preconditions may_manage env (Add_file_to_evidence evidence_id fhash cid ftype) s =
     [(exists (evidences s evidence_id), NotFoundError),
      (has_role s (msg_sender env) ROLE_LAB, AuthorizationError),
      (fhash \<noteq> 0, ValidationError),
      (cid \<noteq> [] \<and> length cid \<le> 100, ValidationError),
      (ftype \<noteq> [] \<and> length ftype \<le> 50, ValidationError),
      (length (evidence_files s evidence_id) < 100, ValidationError)]"

definition stated_preconditions :: "Env \<Rightarrow> Op \<Rightarrow> State \<Rightarrow> (bool \<times> failure) list" where
  "stated_preconditions =
     preconditions (\<lambda>env s. has_role s (msg_sender env) ROLE_ADMIN)"

definition amended_preconditions :: "Env \<Rightarrow> Op \<Rightarrow> State \<Rightarrow> (bool \<times> failure) list" where
  "amended_preconditions = preconditions (\<lambda>env s. msg_sender env = admin s)"

subsection \<open>States of the examples\<close>

text \<open>
  The deployer 1 grants \<open>ROLE_ADMIN\<close> to the address 2 and revokes it from
  itself.
\<close>

definition role_admin_state :: State where
  "role_admin_state = run
     [(\<lparr>msg_sender = 1, block_timestamp = 0\<rparr>, Grant_role 2 ROLE_ADMIN),
      (\<lparr>msg_sender = 1, block_timestamp = 0\<rparr>, Revoke_role 1 ROLE_ADMIN)] (init 1)"

text \<open>
  The scenarios of the specification, from the storage \<open>init 1\<close>: the deployer 1
  grants \<open>ROLE_POLICE\<close> to 2, who registers evidence 1 (A); the deployer grants
  \<open>ROLE_LAB\<close> to 3 and 2 hands the evidence over to 3 (B); 3 moves it to
  \<open>InAnalysis\<close>, then to \<open>Archived\<close>, then tries \<open>Collected\<close> (C).
\<close>

definition scenario_A :: "(Env \<times> Op) list" where
  "scenario_A =
     [(\<lparr>msg_sender = 1, block_timestamp = 100\<rparr>, Grant_role 2 ROLE_POLICE),
      (\<lparr>msg_sender = 2, block_timestamp = 110\<rparr>,
         Register_evidence 5 ''QmL1'' ''desc'' ''CASE-1'')]"

definition scenario_B :: "(Env \<times> Op) list" where
  "scenario_B =
     [(\<lparr>msg_sender = 1, block_timestamp = 120\<rparr>, Grant_role 3 ROLE_LAB),
      (\<lparr>msg_sender = 2, block_timestamp = 130\<rparr>, Transfer_custody 1 3 ''handoff'')]"

definition scenario_C :: "(Env \<times> Op) list" where
  "scenario_C =
     [(\<lparr>msg_sender = 3, block_timestamp = 140\<rparr>, Set_status 1 InAnalysis),
      (\<lparr>msg_sender = 3, block_timestamp = 150\<rparr>, Set_status 1 Archived),
      (\<lparr>msg_sender = 3, block_timestamp = 160\<rparr>, Set_status 1 Collected)]"


text \<open>
  Long histories. \<open>handoffs n a b i\<close> are \<open>n\<close> transfers of evidence \<open>i\<close>, from
  \<open>a\<close> to \<open>b\<close>, back to \<open>a\<close> and so on. After scenario A and the grant of
  \<open>ROLE_LAB\<close> to 3, 999 handoffs between 2 and 3 fill the history of evidence 1, which
  3 then holds; two status changes by 3 archive it. 100 files attached by 3 fill its file
  list.
\<close>

fun handoffs :: "nat \<Rightarrow> address \<Rightarrow> address \<Rightarrow> uint256 \<Rightarrow> (Env \<times> Op) list" where
  "handoffs 0 a b i = []"
| "handoffs (Suc n) a b i =
     (\<lparr>msg_sender = a, block_timestamp = 200\<rparr>, Transfer_custody i b ''handoff'') #
     handoffs n b a i"

definition scenario_B_grant :: "(Env \<times> Op) list" where
  "scenario_B_grant = [(\<lparr>msg_sender = 1, block_timestamp = 120\<rparr>, Grant_role 3 ROLE_LAB)]"

definition full_history_state :: State where
  "full_history_state = run (handoffs 999 2 3 1) (run (scenario_A @ scenario_B_grant) (init 1))"

definition full_files_state :: State where
  "full_files_state = run
     (replicate 100 (\<lparr>msg_sender = 3, block_timestamp = 200\<rparr>,
        Add_file_to_evidence 1 7 ''QmF1'' ''Lab Report''))
     (run (scenario_A @ scenario_B_grant) (init 1))"

definition archived_full_state :: State where
  "archived_full_state = run
     [(\<lparr>msg_sender = 3, block_timestamp = 140\<rparr>, Set_status 1 InAnalysis),
      (\<lparr>msg_sender = 3, block_timestamp = 150\<rparr>, Set_status 1 Archived)] full_history_state"

section \<open>The operations as case distinctions\<close>

text \<open>
  Each external function, with its modifiers unfolded: the checks in the order of the
  source, the first failing one deciding the revert, and the storage written when all
  pass.
\<close>

lemma seq_require [simp]: "seq (require b r) k = (if b then k else Inl r)"
  by (simp add: seq_def require_def)

lemmas modifier_defs = only_admin_def only_role_def evidence_exists_def only_custodian_def
  validate_address_def validate_string_def validate_case_id_def validate_hash_def
  decode_String_def

lemmas role_defs = ROLE_ADMIN_def ROLE_POLICE_def ROLE_LAB_def ROLE_JUDGE_def

lemma grant_role_eq:
  "grant_role env account role s =
    (if msg_sender env \<noteq> admin s then Inl Only_admin
     else if account = 0 then Inl Invalid_address
     else if role \<notin> {ROLE_ADMIN, ROLE_POLICE, ROLE_LAB, ROLE_JUDGE} then Inl Invalid_role
     else Inr (s\<lparr>roles := (roles s)(account := roles s account OR role),
            logs := logs s @ [RoleGranted account role (msg_sender env)]\<rparr>))"
  by (simp add: grant_role_def modifier_defs)

lemma revoke_role_eq:
  "revoke_role env account role s =
    (if msg_sender env \<noteq> admin s then Inl Only_admin
     else if account = 0 then Inl Invalid_address
     else if role \<notin> {ROLE_ADMIN, ROLE_POLICE, ROLE_LAB, ROLE_JUDGE} then Inl Invalid_role
     else Inr (s\<lparr>roles := (roles s)(account := roles s account AND NOT role),
            logs := logs s @ [RoleRevoked account role (msg_sender env)]\<rparr>))"
  by (simp add: revoke_role_def modifier_defs)

lemma register_evidence_eq:
  "register_evidence env fhash cid descr cas s =
    (if \<not> (length cid \<le> 100 \<and> length descr \<le> 500 \<and> length cas \<le> 50)
       then Inl Argument_too_long
     else if roles s (msg_sender env) AND ROLE_POLICE = 0 then Inl Unauthorized_role
     else if fhash = 0 then Inl Invalid_hash
     else if descr = [] then Inl Empty_string
     else if cas = [] then Inl Empty_case_ID
     else if cid = [] then Inl Empty_IPFS_CID
     else if registered_hashes s fhash then Inl Evidence_already_registered
     else if evidence_counter s = - 1 then Inl Counter_overflow
     else if 1000 \<le> length (custody_history s (evidence_counter s + 1)) then Inl DynArray_full
     else Inr (s\<lparr>evidence_counter := evidence_counter s + 1,
            evidences := (evidences s)(evidence_counter s + 1 :=
                \<lparr>ev_id = evidence_counter s + 1, file_hash = fhash, ipfs_cid = cid,
                 description = descr, case_id = cas, creator = msg_sender env,
                 current_custodian = msg_sender env, created_at = block_timestamp env,
                 status = Collected, exists = True\<rparr>),
            registered_hashes := (registered_hashes s)(fhash := True),
            custody_history := (custody_history s)(evidence_counter s + 1 :=
                custody_history s (evidence_counter s + 1) @
                [\<lparr>from_address = 0, to_address = msg_sender env,
                  timestamp = block_timestamp env, reason = ''Initial registration''\<rparr>]),
            logs := logs s @ [EvidenceRegistered (evidence_counter s + 1) fhash cid cas
                      (msg_sender env) (block_timestamp env)]\<rparr>,
          evidence_counter s + 1))"
  by (simp add: register_evidence_def modifier_defs append_dyn_def Let_def)

lemma transfer_custody_eq:
  "transfer_custody env i nc rsn s =
    (if \<not> length rsn \<le> 200 then Inl Argument_too_long
     else if \<not> exists (evidences s i) then Inl Evidence_does_not_exist
     else if current_custodian (evidences s i) \<noteq> msg_sender env then Inl Not_custodian
     else if nc = 0 then Inl Invalid_address
     else if rsn = [] then Inl Empty_reason
     else if roles s nc = 0 then Inl New_custodian_has_no_role
     else if nc = msg_sender env then Inl Cannot_transfer_to_self
     else if 1000 \<le> length (custody_history s i) then Inl DynArray_full
     else Inr (s\<lparr>custody_history := (custody_history s)(i := custody_history s i @
                [\<lparr>from_address = current_custodian (evidences s i), to_address = nc,
                  timestamp = block_timestamp env, reason = rsn\<rparr>]),
            evidences := (evidences s)(i := (evidences s i)\<lparr>current_custodian := nc\<rparr>),
            logs := logs s @ [CustodyTransferred i (current_custodian (evidences s i)) nc rsn
                      (block_timestamp env)]\<rparr>))"
  by (simp add: transfer_custody_def modifier_defs append_dyn_def Let_def)

lemma set_status_eq:
  "set_status env i new_status s =
    (if \<not> exists (evidences s i) then Inl Evidence_does_not_exist
     else if roles s (msg_sender env) AND (ROLE_LAB OR ROLE_JUDGE) = 0 then Inl Unauthorized_role
     else if new_status = status (evidences s i) then Inl Status_unchanged
     else case status (evidences s i) of
        Collected \<Rightarrow> if new_status = InAnalysis \<or> new_status = Invalidated
            then Inr (s\<lparr>evidences := (evidences s)(i := (evidences s i)\<lparr>status := new_status\<rparr>),
              logs := logs s @ [StatusChanged i Collected new_status
                      (msg_sender env) (block_timestamp env)]\<rparr>)
            else Inl Invalid_transition_from_Collected
      | InAnalysis \<Rightarrow> if new_status = Archived \<or> new_status = Invalidated
            then Inr (s\<lparr>evidences := (evidences s)(i := (evidences s i)\<lparr>status := new_status\<rparr>),
              logs := logs s @ [StatusChanged i InAnalysis new_status
                      (msg_sender env) (block_timestamp env)]\<rparr>)
            else Inl Invalid_transition_from_InAnalysis
      | Archived \<Rightarrow> Inl Cannot_transition_from_Archived
      | Invalidated \<Rightarrow> Inl Cannot_transition_from_Invalidated)"
  by (cases "status (evidences s i)")
     (simp_all add: set_status_def modifier_defs Let_def seq_def require_def)

lemma add_file_to_evidence_eq:
  "add_file_to_evidence env i fhash cid ftype s =
    (if \<not> (length cid \<le> 100 \<and> length ftype \<le> 50) then Inl Argument_too_long
     else if \<not> exists (evidences s i) then Inl Evidence_does_not_exist
     else if roles s (msg_sender env) AND ROLE_LAB = 0 then Inl Unauthorized_role
     else if fhash = 0 then Inl Invalid_hash
     else if cid = [] then Inl Empty_IPFS_CID
     else if ftype = [] then Inl Empty_file_type
     else if 100 \<le> length (evidence_files s i) then Inl DynArray_full
     else Inr (s\<lparr>evidence_files := (evidence_files s)(i := evidence_files s i @
                [\<lparr>ef_file_hash = fhash, ef_ipfs_cid = cid, file_type = ftype,
                  added_by = msg_sender env, added_at = block_timestamp env\<rparr>]),
            logs := logs s @ [EvidenceFileAdded i fhash cid ftype
                      (msg_sender env) (block_timestamp env)]\<rparr>))"
  by (simp add: add_file_to_evidence_def modifier_defs append_dyn_def Let_def)

lemmas op_eqs = grant_role_eq revoke_role_eq register_evidence_eq transfer_custody_eq
  set_status_eq add_file_to_evidence_eq

section \<open>Transactions and lists of transactions\<close>

lemma call_cases: "(exec env op s = Inr (call env op s)) \<or> (isl (exec env op s) \<and> call env op s = s)"
  by (cases "exec env op s") (auto simp: call_def)

lemma exec_Inl_call: "exec env op s = Inl r \<Longrightarrow> call env op s = s"
  by (simp add: call_def)

lemma run_append: "run (as @ bs) s = run bs (run as s)"
  by (induction as arbitrary: s) auto

section \<open>Well-formedness is invariant\<close>

lemma counter_succ_neq_0: "c \<noteq> (- 1 :: uint256) \<Longrightarrow> c + 1 \<noteq> 0"
  by (metis add_eq_0_iff2)

lemma counter_less_succ: "c \<noteq> (- 1 :: uint256) \<Longrightarrow> c < c + 1"
  by (meson inc_less_eq_triv_imp verit_comp_simplify1(3))

lemma unat_counter_succ: "c \<noteq> (- 1 :: uint256) \<Longrightarrow> unat (c + 1) = unat c + 1"
  by (metis inc_less_eq_self_iff_eq nle_le unat_plus_simple unsigned_1)

lemma chain_linked_snoc:
  "chain_linked h \<Longrightarrow> h \<noteq> [] \<Longrightarrow> to_address (last h) = from_address e \<Longrightarrow>
   chain_linked (h @ [e])"
  by (induction h rule: chain_linked.induct) auto

lemma chain_linked_nth:
  "chain_linked h \<Longrightarrow> Suc k < length h \<Longrightarrow> to_address (h ! k) = from_address (h ! Suc k)"
proof (induction h arbitrary: k rule: chain_linked.induct)
  case (3 a b es)
  then show ?case by (cases k) auto
qed auto

lemma custody_ok_snoc:
  "custody_ok h c \<Longrightarrow>
   custody_ok (h @ [\<lparr>from_address = c, to_address = n, timestamp = t, reason = r\<rparr>]) n"
  by (auto simp: custody_ok_def intro: chain_linked_snoc)

lemma wf_init: "wf (init d)"
  by (simp add: wf_def init_def empty_Evidence_def)

lemma wf_grant_role: "wf s \<Longrightarrow> grant_role env a r s = Inr s' \<Longrightarrow> wf s'"
  by (auto simp: grant_role_eq wf_def split: if_splits)

lemma wf_revoke_role: "wf s \<Longrightarrow> revoke_role env a r s = Inr s' \<Longrightarrow> wf s'"
  by (auto simp: revoke_role_eq wf_def split: if_splits)

lemma wf_set_status: "wf s \<Longrightarrow> set_status env i st s = Inr s' \<Longrightarrow> wf s'"
  by (auto simp: set_status_eq wf_def split: if_splits Status.splits)

lemma wf_add_file: "wf s \<Longrightarrow> add_file_to_evidence env i h c t s = Inr s' \<Longrightarrow> wf s'"
  by (auto simp: add_file_to_evidence_eq wf_def split: if_splits)

lemma wf_transfer_custody:
  assumes "wf s" and "transfer_custody env i n r s = Inr s'"
  shows "wf s'"
proof -
  from assms(2) have ex: "exists (evidences s i)"
    and cust: "current_custodian (evidences s i) = msg_sender env"
    by (auto simp: transfer_custody_eq split: if_splits)
  from assms(1) ex have "custody_ok (custody_history s i) (current_custodian (evidences s i))"
    by (simp add: wf_def)
  then have "custody_ok (custody_history s i @
      [\<lparr>from_address = msg_sender env, to_address = n,
        timestamp = block_timestamp env, reason = r\<rparr>]) n"
    using custody_ok_snoc cust by metis
  then show ?thesis
    using assms by (auto simp: transfer_custody_eq wf_def split: if_splits)
qed

lemma wf_register_evidence:
  assumes "wf s" and "register_evidence env h c d k s = Inr (s', n)"
  shows "wf s'"
proof -
  from assms(2) have ovf: "evidence_counter s \<noteq> - 1"
    by (auto simp: register_evidence_eq split: if_splits)
  have fresh: "\<not> exists (evidences s (evidence_counter s + 1))"
    using assms(1) counter_less_succ [OF ovf] unfolding wf_def
    by (metis leD)
  have le: "i \<le> evidence_counter s \<Longrightarrow> i \<le> evidence_counter s + 1" for i
    using counter_less_succ [OF ovf] by simp
  show ?thesis
    using assms fresh le counter_succ_neq_0 [OF ovf]
    by (auto simp: register_evidence_eq wf_def custody_ok_def split: if_splits)
qed

lemma wf_call: "wf s \<Longrightarrow> wf (call env op s)"
  by (cases op; cases "exec env op s")
     (auto simp: call_def map_sum_def split: sum.splits
           dest: wf_grant_role wf_revoke_role wf_set_status wf_add_file wf_transfer_custody wf_register_evidence)

lemma wf_run: "wf s \<Longrightarrow> wf (run cs s)"
  by (induction cs arbitrary: s) (auto simp: wf_call)

lemma wf_reachable: "wf (run cs (init d))"
  by (simp add: wf_run wf_init)

lemma fresh_id:
  assumes "wf s" and "evidence_counter s \<noteq> - 1"
  shows "\<not> exists (evidences s (evidence_counter s + 1))"
  using assms(1) counter_less_succ [OF assms(2)] unfolding wf_def by (metis leD)

lemma register_evidence_wf_result:
  assumes "wf s" and "register_evidence env h c d k s = Inr (s', n)"
  shows "n = evidence_counter s + 1 \<and> evidence_counter s \<noteq> - 1 \<and> 
         \<not> exists (evidences s n) \<and> custody_history s n = [] \<and>
         exists (evidences s' n) \<and> file_hash (evidences s' n) = h \<and> registered_hashes s' h"
proof -
  from assms(2) have ovf: "evidence_counter s \<noteq> - 1" and n: "n = evidence_counter s + 1"
    by (auto simp: register_evidence_eq split: if_splits)
  from fresh_id [OF assms(1) ovf] assms(1) have "custody_history s (evidence_counter s + 1) = []"
    by (simp add: wf_def)
  with fresh_id [OF assms(1) ovf] ovf n assms(2) show ?thesis
    by (auto simp: register_evidence_eq split: if_splits)
qed

section \<open>What a transaction leaves alone\<close>

lemma exec_evidence_frame:
  assumes "wf s" and "exists (evidences s i)" and "exec env op s = Inr s'"
  shows "ev_id (evidences s' i) = ev_id (evidences s i) \<and>
         file_hash (evidences s' i) = file_hash (evidences s i) \<and>
         ipfs_cid (evidences s' i) = ipfs_cid (evidences s i) \<and>
         description (evidences s' i) = description (evidences s i) \<and>
         case_id (evidences s' i) = case_id (evidences s i) \<and>
         creator (evidences s' i) = creator (evidences s i) \<and>
         created_at (evidences s' i) = created_at (evidences s i) \<and>
         exists (evidences s' i)"
proof (cases op)
  case (Register_evidence h c d k)
  with assms(3) have ovf: "evidence_counter s \<noteq> - 1"
    by (auto simp: register_evidence_eq split: if_splits)
  from fresh_id [OF assms(1) ovf] assms(2) have "i \<noteq> evidence_counter s + 1" by auto
  with Register_evidence assms(2,3) show ?thesis
    by (auto simp: register_evidence_eq split: if_splits)
qed (use assms in \<open>auto simp: op_eqs split: if_splits Status.splits\<close>)

lemma exec_custodian_frame:
  assumes "wf s" and "exists (evidences s i)" and "exec env op s = Inr s'"
    and "current_custodian (evidences s' i) \<noteq> current_custodian (evidences s i)"
  shows "\<exists>nc r. op = Transfer_custody i nc r \<and> current_custodian (evidences s' i) = nc"
proof (cases op)
  case (Register_evidence h c d k)
  with assms(3) have ovf: "evidence_counter s \<noteq> - 1"
    by (auto simp: register_evidence_eq split: if_splits)
  from fresh_id [OF assms(1) ovf] assms(2) have "i \<noteq> evidence_counter s + 1" by auto
  with Register_evidence assms(2,3,4) show ?thesis
    by (auto simp: register_evidence_eq split: if_splits)
qed (use assms in \<open>auto simp: op_eqs split: if_splits Status.splits\<close>)

lemma exec_status_frame:
  assumes "wf s" and "exists (evidences s i)" and "exec env op s = Inr s'"
    and "status (evidences s' i) \<noteq> status (evidences s i)"
  shows "op = Set_status i (status (evidences s' i)) \<and>
         (status (evidences s i), status (evidences s' i)) \<in> set allowed_transitions"
proof (cases op)
  case (Register_evidence h c d k)
  with assms(3) have ovf: "evidence_counter s \<noteq> - 1"
    by (auto simp: register_evidence_eq split: if_splits)
  from fresh_id [OF assms(1) ovf] assms(2) have "i \<noteq> evidence_counter s + 1" by auto
  with Register_evidence assms(2,3,4) show ?thesis
    by (auto simp: register_evidence_eq split: if_splits)
qed (use assms in \<open>auto simp: op_eqs allowed_transitions_def split: if_splits Status.splits\<close>)

lemma call_evidence_frame:
  assumes "wf s" and "exists (evidences s i)"
  shows "ev_id (evidences (call env op s) i) = ev_id (evidences s i) \<and>
         file_hash (evidences (call env op s) i) = file_hash (evidences s i) \<and>
         ipfs_cid (evidences (call env op s) i) = ipfs_cid (evidences s i) \<and>
         description (evidences (call env op s) i) = description (evidences s i) \<and>
         case_id (evidences (call env op s) i) = case_id (evidences s i) \<and>
         creator (evidences (call env op s) i) = creator (evidences s i) \<and>
         created_at (evidences (call env op s) i) = created_at (evidences s i) \<and>
         exists (evidences (call env op s) i)"
  using call_cases [of env op s] exec_evidence_frame [OF assms, of env op "call env op s"] assms(2)
  by auto

lemma run_evidence_frame:
  assumes "wf s" and "exists (evidences s i)"
  shows "ev_id (evidences (run cs s) i) = ev_id (evidences s i) \<and>
         file_hash (evidences (run cs s) i) = file_hash (evidences s i) \<and>
         ipfs_cid (evidences (run cs s) i) = ipfs_cid (evidences s i) \<and>
         description (evidences (run cs s) i) = description (evidences s i) \<and>
         case_id (evidences (run cs s) i) = case_id (evidences s i) \<and>
         creator (evidences (run cs s) i) = creator (evidences s i) \<and>
         created_at (evidences (run cs s) i) = created_at (evidences s i) \<and>
         exists (evidences (run cs s) i)"
  using assms
proof (induction cs arbitrary: s)
  case Nil
  then show ?case by simp
next
  case (Cons c cs)
  obtain env op where c: "c = (env, op)" by (cases c)
  from Cons.prems have w: "wf (call env op s)" by (simp add: wf_call)
  from call_evidence_frame [OF Cons.prems, of env op]
  have f: "exists (evidences (call env op s) i)" by simp
  from Cons.IH [OF w f] call_evidence_frame [OF Cons.prems, of env op] c
  show ?case by simp
qed

lemma call_status_step:
  assumes "wf s" and "exists (evidences s i)"
  shows "status (evidences s i) = status (evidences (call env op s) i) \<or>
         (status (evidences s i), status (evidences (call env op s) i)) \<in> set allowed_transitions"
  using call_cases [of env op s] exec_status_frame [OF assms, of env op "call env op s"]
  by (cases "status (evidences (call env op s) i) = status (evidences s i)") auto

lemma call_status_only_set_status:
  assumes "wf s" and "exists (evidences s i)"
    and "status (evidences (call env op s) i) \<noteq> status (evidences s i)"
  shows "op = Set_status i (status (evidences (call env op s) i))"
  using call_cases [of env op s] exec_status_frame [OF assms(1,2), of env op "call env op s"] assms(3)
  by auto

lemma call_custodian_only_transfer:
  assumes "wf s" and "exists (evidences s i)"
    and "current_custodian (evidences (call env op s) i) \<noteq> current_custodian (evidences s i)"
  shows "\<exists>r. op = Transfer_custody i (current_custodian (evidences (call env op s) i)) r"
  using call_cases [of env op s] exec_custodian_frame [OF assms(1,2), of env op "call env op s"] assms(3)
  by auto

lemma call_history_prefix: "prefix (custody_history s i) (custody_history (call env op s) i)"
  by (cases op) (auto simp: call_def op_eqs split: if_splits Status.splits)

lemma run_history_prefix: "prefix (custody_history s i) (custody_history (run cs s) i)"
proof (induction cs arbitrary: s)
  case Nil
  then show ?case by simp
next
  case (Cons c cs)
  obtain env op where c: "c = (env, op)" by (cases c)
  from call_history_prefix [of s i env op] Cons.IH [of "call env op s"] c
  show ?case by (auto intro: prefix_order.trans)
qed

lemma call_files_prefix: "prefix (evidence_files s i) (evidence_files (call env op s) i)"
  by (cases op) (auto simp: call_def op_eqs split: if_splits Status.splits)

lemma run_files_prefix: "prefix (evidence_files s i) (evidence_files (run cs s) i)"
proof (induction cs arbitrary: s)
  case Nil
  then show ?case by simp
next
  case (Cons c cs)
  obtain env op where c: "c = (env, op)" by (cases c)
  from call_files_prefix [of s i env op] Cons.IH [of "call env op s"] c
  show ?case by (auto intro: prefix_order.trans)
qed



lemma call_counter_mono: "evidence_counter s \<le> evidence_counter (call env op s)"
proof (cases op)
  case (Register_evidence h c d k)
  show ?thesis
  proof (cases "evidence_counter s = - 1")
    case True
    with Register_evidence show ?thesis by (simp add: call_def register_evidence_eq)
  next
    case False
    from counter_less_succ [OF False] Register_evidence show ?thesis
      by (auto simp: call_def register_evidence_eq)
  qed
qed (auto simp: call_def op_eqs split: if_splits Status.splits)

lemma run_counter_mono: "evidence_counter s \<le> evidence_counter (run cs s)"
proof (induction cs arbitrary: s)
  case Nil
  then show ?case by simp
next
  case (Cons c cs)
  obtain env op where c: "c = (env, op)" by (cases c)
  from call_counter_mono [of s env op] Cons.IH [of "call env op s"] c
  show ?case by (auto intro: order_trans)
qed

section \<open>The example runs\<close>

lemma scenario_A_state:
  "run scenario_A (init 1) = \<lparr>admin = 1, evidence_counter = 1,
     evidences = (\<lambda>_. empty_Evidence)(1 := \<lparr>ev_id = 1, file_hash = 5, ipfs_cid = ''QmL1'',
        description = ''desc'', case_id = ''CASE-1'', creator = 2, current_custodian = 2,
        created_at = 110, status = Collected, exists = True\<rparr>),
     custody_history = (\<lambda>_. [])(1 := [\<lparr>from_address = 0, to_address = 2, timestamp = 110,
        reason = ''Initial registration''\<rparr>]),
     evidence_files = (\<lambda>_. []),
     roles = (\<lambda>_. 0)(1 := 15, 2 := 2),
     registered_hashes = (\<lambda>_. False)(5 := True),
     logs = [RoleGranted 2 2 1, EvidenceRegistered 1 5 ''QmL1'' ''CASE-1'' 2 110]\<rparr>"
  by (simp add: scenario_A_def call_def op_eqs init_def role_defs)

lemma scenario_A_lab_state:
  "run (scenario_A @ scenario_B_grant) (init 1) =
     (run scenario_A (init 1))\<lparr>roles := (\<lambda>_. 0)(1 := 15, 2 := 2, 3 := 4),
        logs := [RoleGranted 2 2 1, EvidenceRegistered 1 5 ''QmL1'' ''CASE-1'' 2 110,
                 RoleGranted 3 4 1]\<rparr>"
  by (simp add: run_append scenario_A_state scenario_B_grant_def call_def op_eqs role_defs)

lemma scenario_AB_state:
  "run (scenario_A @ scenario_B) (init 1) = \<lparr>admin = 1, evidence_counter = 1,
     evidences = (\<lambda>_. empty_Evidence)(1 := \<lparr>ev_id = 1, file_hash = 5, ipfs_cid = ''QmL1'',
        description = ''desc'', case_id = ''CASE-1'', creator = 2, current_custodian = 3,
        created_at = 110, status = Collected, exists = True\<rparr>),
     custody_history = (\<lambda>_. [])(1 :=
       [\<lparr>from_address = 0, to_address = 2, timestamp = 110, reason = ''Initial registration''\<rparr>,
        \<lparr>from_address = 2, to_address = 3, timestamp = 130, reason = ''handoff''\<rparr>]),
     evidence_files = (\<lambda>_. []),
     roles = (\<lambda>_. 0)(1 := 15, 2 := 2, 3 := 4),
     registered_hashes = (\<lambda>_. False)(5 := True),
     logs = [RoleGranted 2 2 1, EvidenceRegistered 1 5 ''QmL1'' ''CASE-1'' 2 110,
             RoleGranted 3 4 1, CustodyTransferred 1 2 3 ''handoff'' 130]\<rparr>"
  by (simp add: run_append scenario_A_state scenario_B_def call_def op_eqs role_defs)

lemma scenario_ABC_facts:
  "exists (evidences (run (scenario_A @ scenario_B @ scenario_C) (init 1)) 1) \<and>
   status (evidences (run (scenario_A @ scenario_B @ scenario_C) (init 1)) 1) = Archived \<and>
   current_custodian (evidences (run (scenario_A @ scenario_B @ scenario_C) (init 1)) 1) = 3 \<and>
   roles (run (scenario_A @ scenario_B @ scenario_C) (init 1)) 2 = 2 \<and>
   length (custody_history (run (scenario_A @ scenario_B @ scenario_C) (init 1)) 1) = 2"
  using scenario_AB_state
  by (simp add: run_append scenario_C_def call_def set_status_eq role_defs)

lemma handoffs_run:
  assumes "exists (evidences s i)" and "current_custodian (evidences s i) = a"
    and "a \<noteq> b" and "a \<noteq> 0" and "b \<noteq> 0" and "roles s a \<noteq> 0" and "roles s b \<noteq> 0"
    and "length (custody_history s i) + n \<le> 1000"
  shows "length (custody_history (run (handoffs n a b i) s) i) = length (custody_history s i) + n \<and>
         current_custodian (evidences (run (handoffs n a b i) s) i) = (if even n then a else b) \<and>
         exists (evidences (run (handoffs n a b i) s) i) \<and>
         status (evidences (run (handoffs n a b i) s) i) = status (evidences s i) \<and>
         roles (run (handoffs n a b i) s) = roles s \<and>
         evidence_files (run (handoffs n a b i) s) = evidence_files s"
  using assms
proof (induction n arbitrary: s a b)
  case 0
  then show ?case by simp
next
  case (Suc n)
  let ?env = "\<lparr>msg_sender = a, block_timestamp = 200\<rparr>"
  let ?s = "call ?env (Transfer_custody i b ''handoff'') s"
  have step: "exists (evidences ?s i) \<and> current_custodian (evidences ?s i) = b \<and>
      roles ?s = roles s \<and> evidence_files ?s = evidence_files s \<and>
      status (evidences ?s i) = status (evidences s i) \<and>
      length (custody_history ?s i) = Suc (length (custody_history s i))"
    using Suc.prems by (simp add: call_def transfer_custody_eq)
  have "length (custody_history (run (handoffs n b a i) ?s) i) = length (custody_history ?s i) + n \<and>
         current_custodian (evidences (run (handoffs n b a i) ?s) i) = (if even n then b else a) \<and>
         exists (evidences (run (handoffs n b a i) ?s) i) \<and>
         status (evidences (run (handoffs n b a i) ?s) i) = status (evidences ?s i) \<and>
         roles (run (handoffs n b a i) ?s) = roles ?s \<and>
         evidence_files (run (handoffs n b a i) ?s) = evidence_files ?s"
    using step Suc.prems by (intro Suc.IH) auto
  with step show ?case by simp
qed

lemma full_history_state_facts:
  "length (custody_history full_history_state 1) = 1000 \<and>
   current_custodian (evidences full_history_state 1) = 3 \<and>
   exists (evidences full_history_state 1) \<and>
   status (evidences full_history_state 1) = Collected \<and>
   roles full_history_state = (\<lambda>_. 0)(1 := 15, 2 := 2, 3 := 4) \<and>
   evidence_files full_history_state = (\<lambda>_. [])"
  unfolding full_history_state_def
  using handoffs_run [where s = "run (scenario_A @ scenario_B_grant) (init 1)" and i = 1
          and a = 2 and b = 3 and n = 999]
  by (simp add: scenario_A_lab_state scenario_A_state)

lemma archived_full_state_eq:
  "archived_full_state = full_history_state
     \<lparr>evidences := (evidences full_history_state)(1 :=
         (evidences full_history_state 1)\<lparr>status := Archived\<rparr>),
      logs := logs full_history_state @
        [StatusChanged 1 Collected InAnalysis 3 140, StatusChanged 1 InAnalysis Archived 3 150]\<rparr>"
  using full_history_state_facts
  by (simp add: archived_full_state_def call_def set_status_eq role_defs)

lemma add_files_run:
  assumes "exists (evidences s i)" and "roles s (msg_sender env) AND ROLE_LAB \<noteq> 0"
    and "h \<noteq> 0" and "c \<noteq> []" and "t \<noteq> []"
    and "length c \<le> 100" and "length t \<le> 50"
    and "length (evidence_files s i) + n \<le> 100"
  shows "length (evidence_files (run (replicate n (env, Add_file_to_evidence i h c t)) s) i) =
           length (evidence_files s i) + n \<and>
         exists (evidences (run (replicate n (env, Add_file_to_evidence i h c t)) s) i) \<and>
         roles (run (replicate n (env, Add_file_to_evidence i h c t)) s) = roles s"
  using assms
proof (induction n arbitrary: s)
  case 0
  then show ?case by simp
next
  case (Suc n)
  let ?s = "call env (Add_file_to_evidence i h c t) s"
  have step: "exists (evidences ?s i) \<and> roles ?s = roles s \<and>
      length (evidence_files ?s i) = Suc (length (evidence_files s i))"
    using Suc.prems by (simp add: call_def add_file_to_evidence_eq)
  have "length (evidence_files (run (replicate n (env, Add_file_to_evidence i h c t)) ?s) i) =
           length (evidence_files ?s i) + n \<and>
         exists (evidences (run (replicate n (env, Add_file_to_evidence i h c t)) ?s) i) \<and>
         roles (run (replicate n (env, Add_file_to_evidence i h c t)) ?s) = roles ?s"
    using step Suc.prems by (intro Suc.IH) auto
  with step show ?case by simp
qed

lemma full_files_state_facts:
  "length (evidence_files full_files_state 1) = 100 \<and>
   exists (evidences full_files_state 1) \<and>
   roles full_files_state = (\<lambda>_. 0)(1 := 15, 2 := 2, 3 := 4)"
  unfolding full_files_state_def
  using add_files_run [where s = "run (scenario_A @ scenario_B_grant) (init 1)" and i = 1
          and env = "\<lparr>msg_sender = 3, block_timestamp = 200\<rparr>" and h = 7
          and c = "''QmF1''" and t = "''Lab Report''" and n = 100]
  by (simp add: scenario_A_lab_state scenario_A_state role_defs)

section \<open>Role-based access control\<close>

text \<open>
  C1, as amended. \<open>grant_role\<close> and \<open>revoke_role\<close> return exactly when the caller is
  the address stored in \<open>admin\<close> (the deployer), the account is not the zero address
  and the role is one of \<open>ROLE_ADMIN\<close>, \<open>ROLE_POLICE\<close>, \<open>ROLE_LAB\<close>,
  \<open>ROLE_JUDGE\<close>. Any other caller reverts with "Only admin" (the authorization
  failure), whatever its role bits; the admin reverts with "Invalid address" on the zero
  address and with "Invalid role" on any other role value (the validation failures).
  On return, grant has OR-ed the role into the account's mask, revoke has AND-ed its
  complement, and the matching event is logged.
\<close>

theorem grant_revoke_role_admin_address:
  "((\<exists>s'. grant_role env account role s = Inr s') \<longleftrightarrow>
      msg_sender env = admin s \<and> account \<noteq> 0 \<and>
      role \<in> {ROLE_ADMIN, ROLE_POLICE, ROLE_LAB, ROLE_JUDGE}) \<and>
   ((\<exists>s'. revoke_role env account role s = Inr s') \<longleftrightarrow>
      msg_sender env = admin s \<and> account \<noteq> 0 \<and>
      role \<in> {ROLE_ADMIN, ROLE_POLICE, ROLE_LAB, ROLE_JUDGE}) \<and>
   (msg_sender env \<noteq> admin s \<longrightarrow>
      grant_role env account role s = Inl Only_admin \<and>
      revoke_role env account role s = Inl Only_admin) \<and>
   (msg_sender env = admin s \<and> account = 0 \<longrightarrow>
      grant_role env account role s = Inl Invalid_address \<and>
      revoke_role env account role s = Inl Invalid_address) \<and>
   (msg_sender env = admin s \<and> account \<noteq> 0 \<and>
    role \<notin> {ROLE_ADMIN, ROLE_POLICE, ROLE_LAB, ROLE_JUDGE} \<longrightarrow>
      grant_role env account role s = Inl Invalid_role \<and>
      revoke_role env account role s = Inl Invalid_role) \<and>
   (msg_sender env = admin s \<and> account \<noteq> 0 \<and>
    role \<in> {ROLE_ADMIN, ROLE_POLICE, ROLE_LAB, ROLE_JUDGE} \<longrightarrow>
      grant_role env account role s =
        Inr (s\<lparr>roles := (roles s)(account := roles s account OR role),
               logs := logs s @ [RoleGranted account role (msg_sender env)]\<rparr>) \<and>
      revoke_role env account role s =
        Inr (s\<lparr>roles := (roles s)(account := roles s account AND NOT role),
               logs := logs s @ [RoleRevoked account role (msg_sender env)]\<rparr>))"
  by (simp add: grant_role_eq revoke_role_eq)

theorem grant_revoke_role_admin_address_witness:
  "grant_role \<lparr>msg_sender = 1, block_timestamp = 0\<rparr> 2 ROLE_LAB (init 1) =
     Inr ((init 1)\<lparr>roles := (roles (init 1))(2 := roles (init 1) 2 OR ROLE_LAB),
            logs := logs (init 1) @ [RoleGranted 2 ROLE_LAB 1]\<rparr>) \<and>
   revoke_role \<lparr>msg_sender = 1, block_timestamp = 0\<rparr> 1 ROLE_LAB (init 1) =
     Inr ((init 1)\<lparr>roles := (roles (init 1))(1 := roles (init 1) 1 AND NOT ROLE_LAB),
            logs := logs (init 1) @ [RoleRevoked 1 ROLE_LAB 1]\<rparr>) \<and>
   roles (init 1) 2 OR ROLE_LAB = 4 \<and> roles (init 1) 1 AND NOT ROLE_LAB = 11 \<and>
   grant_role \<lparr>msg_sender = 2, block_timestamp = 0\<rparr> 2 ROLE_LAB (init 1) = Inl Only_admin \<and>
   grant_role \<lparr>msg_sender = 1, block_timestamp = 0\<rparr> 0 ROLE_LAB (init 1) = Inl Invalid_address \<and>
   revoke_role \<lparr>msg_sender = 1, block_timestamp = 0\<rparr> 2 3 (init 1) = Inl Invalid_role"
  using grant_revoke_role_admin_address
          [of "\<lparr>msg_sender = 1, block_timestamp = 0\<rparr>" 2 ROLE_LAB "init 1"]
        grant_revoke_role_admin_address
          [of "\<lparr>msg_sender = 1, block_timestamp = 0\<rparr>" 1 ROLE_LAB "init 1"]
        grant_revoke_role_admin_address
          [of "\<lparr>msg_sender = 2, block_timestamp = 0\<rparr>" 2 ROLE_LAB "init 1"]
        grant_revoke_role_admin_address
          [of "\<lparr>msg_sender = 1, block_timestamp = 0\<rparr>" 0 ROLE_LAB "init 1"]
        grant_revoke_role_admin_address
          [of "\<lparr>msg_sender = 1, block_timestamp = 0\<rparr>" 2 3 "init 1"]
  by (simp add: init_def role_defs)

text \<open>
  C1 as stated fails: holding the role \<open>ROLE_ADMIN\<close> is neither enough nor needed.
  In \<open>role_admin_state\<close> the address 2 holds \<open>ROLE_ADMIN\<close> and both functions
  revert for it with "Only admin", while the deployer 1 no longer holds the role and
  both functions return for it.
\<close>

theorem grant_role_holder_of_ADMIN_counterexample:
  "has_role role_admin_state 2 ROLE_ADMIN \<and>
   grant_role \<lparr>msg_sender = 2, block_timestamp = 0\<rparr> 3 ROLE_POLICE role_admin_state
     = Inl Only_admin \<and>
   revoke_role \<lparr>msg_sender = 2, block_timestamp = 0\<rparr> 3 ROLE_POLICE role_admin_state
     = Inl Only_admin \<and>
   \<not> has_role role_admin_state 1 ROLE_ADMIN \<and>
   \<not> isl (grant_role \<lparr>msg_sender = 1, block_timestamp = 0\<rparr> 3 ROLE_POLICE role_admin_state) \<and>
   \<not> isl (revoke_role \<lparr>msg_sender = 1, block_timestamp = 0\<rparr> 3 ROLE_POLICE role_admin_state)"
  by (simp add: role_admin_state_def call_def grant_role_eq revoke_role_eq init_def
        has_role_def role_defs)

section \<open>Immutable fields of the evidence record\<close>

text \<open>
  C2. Take any storage reached from deployment and an evidence \<open>i\<close> that exists in it.
  Whatever transactions follow, its id, digest, description, case id, creator and
  creation time (and its locator and existence flag) stay as they are. A transaction
  that changes its custodian is a \<open>transfer_custody\<close> of \<open>i\<close> to the new custodian,
  and one that changes its status is a \<open>set_status\<close> of \<open>i\<close> to the new status.
\<close>

theorem evidence_fields_immutable:
  fixes cs0 cs :: "(Env \<times> Op) list" and d :: address
  defines "s \<equiv> run cs0 (init d)"
  assumes "exists (evidences s i)"
  shows "ev_id (evidences (run cs s) i) = ev_id (evidences s i) \<and>
         file_hash (evidences (run cs s) i) = file_hash (evidences s i) \<and>
         description (evidences (run cs s) i) = description (evidences s i) \<and>
         case_id (evidences (run cs s) i) = case_id (evidences s i) \<and>
         creator (evidences (run cs s) i) = creator (evidences s i) \<and>
         created_at (evidences (run cs s) i) = created_at (evidences s i) \<and>
         ipfs_cid (evidences (run cs s) i) = ipfs_cid (evidences s i) \<and>
         exists (evidences (run cs s) i) \<and>
         (current_custodian (evidences (call env op s) i) \<noteq> current_custodian (evidences s i) \<longrightarrow>
            (\<exists>r. op = Transfer_custody i (current_custodian (evidences (call env op s) i)) r)) \<and>
         (status (evidences (call env op s) i) \<noteq> status (evidences s i) \<longrightarrow>
            op = Set_status i (status (evidences (call env op s) i)))"
proof -
  have w: "wf s" unfolding s_def by (rule wf_reachable)
  show ?thesis
    using run_evidence_frame [OF w assms(2), of cs]
      call_custodian_only_transfer [OF w assms(2), of env op]
      call_status_only_set_status [OF w assms(2), of env op]
    by blast
qed

theorem evidence_fields_immutable_witness:
  "exists (evidences (run scenario_A (init 1)) 1) \<and>
   ev_id (evidences (run (scenario_B @ scenario_C) (run scenario_A (init 1))) 1) = 1 \<and>
   file_hash (evidences (run (scenario_B @ scenario_C) (run scenario_A (init 1))) 1) = 5 \<and>
   description (evidences (run (scenario_B @ scenario_C) (run scenario_A (init 1))) 1) = ''desc'' \<and>
   case_id (evidences (run (scenario_B @ scenario_C) (run scenario_A (init 1))) 1) = ''CASE-1'' \<and>
   creator (evidences (run (scenario_B @ scenario_C) (run scenario_A (init 1))) 1) = 2 \<and>
   created_at (evidences (run (scenario_B @ scenario_C) (run scenario_A (init 1))) 1) = 110 \<and>
   current_custodian (evidences (run (scenario_B @ scenario_C) (run scenario_A (init 1))) 1) = 3 \<and>
   status (evidences (run (scenario_B @ scenario_C) (run scenario_A (init 1))) 1) = Archived \<and>
   current_custodian (evidences (run scenario_A (init 1)) 1) = 2 \<and>
   current_custodian (evidences (call \<lparr>msg_sender = 2, block_timestamp = 120\<rparr>
       (Transfer_custody 1 1 ''back'') (run scenario_A (init 1))) 1) = 1 \<and>
   status (evidences (run scenario_A (init 1)) 1) = Collected \<and>
   status (evidences (call \<lparr>msg_sender = 1, block_timestamp = 120\<rparr>
       (Set_status 1 InAnalysis) (run scenario_A (init 1))) 1) = InAnalysis"
  using evidence_fields_immutable
          [where d = 1 and ?cs0.0 = scenario_A and i = 1 and cs = "scenario_B @ scenario_C"
             and env = "\<lparr>msg_sender = 2, block_timestamp = 120\<rparr>"
             and op = "Transfer_custody 1 1 ''back''"]
        evidence_fields_immutable
          [where d = 1 and ?cs0.0 = scenario_A and i = 1 and cs = "scenario_B @ scenario_C"
             and env = "\<lparr>msg_sender = 1, block_timestamp = 120\<rparr>"
             and op = "Set_status 1 InAnalysis"]
  by (simp add: scenario_A_state scenario_B_def scenario_C_def call_def op_eqs role_defs)

section \<open>The status machine\<close>

lemma table_path_remdups_Cons:
  assumes "a = b \<or> (a, b) \<in> set allowed_transitions"
    and "table_path (remdups_adj (b # xs))"
  shows "table_path (remdups_adj (a # b # xs))"
proof (cases "a = b")
  case True
  with assms(2) show ?thesis by simp
next
  case False
  obtain ys where ys: "remdups_adj (b # xs) = b # ys"
    by (cases "remdups_adj xs"; cases "b = hd (remdups_adj xs)") (auto simp: remdups_adj_Cons)
  with False assms show ?thesis by simp
qed

lemma status_trace_path:
  assumes "wf s" and "exists (evidences s i)"
  shows "table_path (remdups_adj (status (evidences s i) # status_trace cs s i))"
  using assms
proof (induction cs arbitrary: s)
  case Nil
  then show ?case by simp
next
  case (Cons c cs)
  obtain env op where c: "c = (env, op)" by (cases c)
  have w: "wf (call env op s)" using Cons.prems by (simp add: wf_call)
  have e: "exists (evidences (call env op s) i)"
    using call_evidence_frame [OF Cons.prems] by simp
  from table_path_remdups_Cons [OF call_status_step [OF Cons.prems] Cons.IH [OF w e]] c
  show ?case by simp
qed

lemma status_trace_terminal:
  assumes "wf s" and "exists (evidences s i)"
    and "status (evidences s i) = Archived \<or> status (evidences s i) = Invalidated"
  shows "\<forall>x \<in> set (status_trace cs s i). x = status (evidences s i)"
  using assms
proof (induction cs arbitrary: s)
  case Nil
  then show ?case by simp
next
  case (Cons c cs)
  obtain env op where c: "c = (env, op)" by (cases c)
  have w: "wf (call env op s)" using Cons.prems by (simp add: wf_call)
  have e: "exists (evidences (call env op s) i)"
    using call_evidence_frame [OF Cons.prems(1,2)] by simp
  have same: "status (evidences (call env op s) i) = status (evidences s i)"
    using call_status_step [OF Cons.prems(1,2), of env op] Cons.prems(3)
    by (auto simp: allowed_transitions_def)
  from Cons.IH [OF w e] same Cons.prems(3) c show ?case by simp
qed

text \<open>
  C3. \<open>set_status\<close> returns exactly when the evidence exists, the caller holds
  \<open>ROLE_LAB\<close> or \<open>ROLE_JUDGE\<close>, the new status differs from the current one and the
  pair is a row of the table; it then stores the new status. Otherwise it reverts: with
  "Evidence does not exist", with "Unauthorized role", with "Status unchanged" for the
  current status (the validation failure), and with the invalid-transition reason of the
  current status for a pair outside the table, which is every attempt to leave
  \<open>Archived\<close> or \<open>Invalidated\<close>. For an evidence \<open>j\<close> that exists in a storage
  reached from deployment, the statuses observed from then on, repetitions dropped, are a
  path through the table, and a status \<open>Archived\<close> or \<open>Invalidated\<close> is kept for
  ever.
\<close>

theorem set_status_state_machine:
  fixes cs0 cs :: "(Env \<times> Op) list" and d :: address
  defines "s0 \<equiv> run cs0 (init d)"
  shows
  "((\<exists>s'. set_status env i new_status s = Inr s') \<longleftrightarrow>
      exists (evidences s i) \<and> has_role s (msg_sender env) (ROLE_LAB OR ROLE_JUDGE) \<and>
      new_status \<noteq> status (evidences s i) \<and>
      (status (evidences s i), new_status) \<in> set allowed_transitions) \<and>
   (set_status env i new_status s = Inr s' \<longrightarrow> status (evidences s' i) = new_status) \<and>
   (\<not> exists (evidences s i) \<longrightarrow>
      set_status env i new_status s = Inl Evidence_does_not_exist) \<and>
   (exists (evidences s i) \<and> \<not> has_role s (msg_sender env) (ROLE_LAB OR ROLE_JUDGE) \<longrightarrow>
      set_status env i new_status s = Inl Unauthorized_role) \<and>
   (exists (evidences s i) \<and> has_role s (msg_sender env) (ROLE_LAB OR ROLE_JUDGE) \<and>
    new_status = status (evidences s i) \<longrightarrow>
      set_status env i new_status s = Inl Status_unchanged) \<and>
   (exists (evidences s i) \<and> has_role s (msg_sender env) (ROLE_LAB OR ROLE_JUDGE) \<and>
    new_status \<noteq> status (evidences s i) \<and>
    (status (evidences s i), new_status) \<notin> set allowed_transitions \<longrightarrow>
      set_status env i new_status s = Inl (case status (evidences s i) of
          Collected \<Rightarrow> Invalid_transition_from_Collected
        | InAnalysis \<Rightarrow> Invalid_transition_from_InAnalysis
        | Archived \<Rightarrow> Cannot_transition_from_Archived
        | Invalidated \<Rightarrow> Cannot_transition_from_Invalidated)) \<and>
   (exists (evidences s0 j) \<longrightarrow>
      table_path (remdups_adj (status (evidences s0 j) # status_trace cs s0 j)) \<and>
      (status (evidences s0 j) = Archived \<or> status (evidences s0 j) = Invalidated \<longrightarrow>
         (\<forall>x \<in> set (status_trace cs s0 j). x = status (evidences s0 j))))"
proof -
  have w: "wf s0" unfolding s0_def by (rule wf_reachable)
  have a: "(\<exists>s'. set_status env i new_status s = Inr s') \<longleftrightarrow>
      exists (evidences s i) \<and> has_role s (msg_sender env) (ROLE_LAB OR ROLE_JUDGE) \<and>
      new_status \<noteq> status (evidences s i) \<and>
      (status (evidences s i), new_status) \<in> set allowed_transitions"
    by (cases "status (evidences s i)"; cases new_status)
       (simp_all add: set_status_eq has_role_def allowed_transitions_def)
  have b: "set_status env i new_status s = Inr s' \<longrightarrow> status (evidences s' i) = new_status"
    by (auto simp: set_status_eq split: if_splits Status.splits)
  have c: "\<not> exists (evidences s i) \<longrightarrow>
      set_status env i new_status s = Inl Evidence_does_not_exist"
    by (simp add: set_status_eq)
  have d: "exists (evidences s i) \<and> \<not> has_role s (msg_sender env) (ROLE_LAB OR ROLE_JUDGE) \<longrightarrow>
      set_status env i new_status s = Inl Unauthorized_role"
    by (simp add: set_status_eq has_role_def)
  have e: "exists (evidences s i) \<and> has_role s (msg_sender env) (ROLE_LAB OR ROLE_JUDGE) \<and>
    new_status = status (evidences s i) \<longrightarrow>
      set_status env i new_status s = Inl Status_unchanged"
    by (simp add: set_status_eq has_role_def)
  have f: "exists (evidences s i) \<and> has_role s (msg_sender env) (ROLE_LAB OR ROLE_JUDGE) \<and>
    new_status \<noteq> status (evidences s i) \<and>
    (status (evidences s i), new_status) \<notin> set allowed_transitions \<longrightarrow>
      set_status env i new_status s = Inl (case status (evidences s i) of
          Collected \<Rightarrow> Invalid_transition_from_Collected
        | InAnalysis \<Rightarrow> Invalid_transition_from_InAnalysis
        | Archived \<Rightarrow> Cannot_transition_from_Archived
        | Invalidated \<Rightarrow> Cannot_transition_from_Invalidated)"
    by (cases "status (evidences s i)"; cases new_status)
       (simp_all add: set_status_eq has_role_def allowed_transitions_def)
  have g: "exists (evidences s0 j) \<longrightarrow>
      table_path (remdups_adj (status (evidences s0 j) # status_trace cs s0 j)) \<and>
      (status (evidences s0 j) = Archived \<or> status (evidences s0 j) = Invalidated \<longrightarrow>
         (\<forall>x \<in> set (status_trace cs s0 j). x = status (evidences s0 j)))"
    using status_trace_path [OF w, of j cs] status_trace_terminal [OF w, of j cs] by blast
  from a b c d e f g show ?thesis by blast
qed

theorem set_status_state_machine_witness:
  "set_status \<lparr>msg_sender = 3, block_timestamp = 140\<rparr> 1 InAnalysis
      (run (scenario_A @ scenario_B) (init 1)) =
     Inr (run (scenario_A @ scenario_B @ take 1 scenario_C) (init 1)) \<and>
   status (evidences (run (scenario_A @ scenario_B @ take 1 scenario_C) (init 1)) 1) = InAnalysis \<and>
   set_status \<lparr>msg_sender = 3, block_timestamp = 140\<rparr> 7 InAnalysis
      (run (scenario_A @ scenario_B) (init 1)) = Inl Evidence_does_not_exist \<and>
   set_status \<lparr>msg_sender = 2, block_timestamp = 140\<rparr> 1 InAnalysis
      (run (scenario_A @ scenario_B) (init 1)) = Inl Unauthorized_role \<and>
   set_status \<lparr>msg_sender = 3, block_timestamp = 140\<rparr> 1 Collected
      (run (scenario_A @ scenario_B) (init 1)) = Inl Status_unchanged \<and>
   set_status \<lparr>msg_sender = 3, block_timestamp = 140\<rparr> 1 Archived
      (run (scenario_A @ scenario_B) (init 1)) = Inl Invalid_transition_from_Collected \<and>
   set_status \<lparr>msg_sender = 3, block_timestamp = 160\<rparr> 1 Collected
      (run (scenario_A @ scenario_B @ take 2 scenario_C) (init 1)) =
     Inl Cannot_transition_from_Archived \<and>
   exists (evidences (run (scenario_A @ scenario_B) (init 1)) 1) \<and>
   status_trace scenario_C (run (scenario_A @ scenario_B) (init 1)) 1 =
     [InAnalysis, Archived, Archived] \<and>
   table_path [Collected, InAnalysis, Archived] \<and>
   status_trace (drop 2 scenario_C) (run (scenario_A @ scenario_B @ take 2 scenario_C) (init 1)) 1 =
     [Archived]"
  using set_status_state_machine
          [where env = "\<lparr>msg_sender = 3, block_timestamp = 140\<rparr>" and i = 1
             and new_status = InAnalysis and s = "run (scenario_A @ scenario_B) (init 1)"
             and s' = "run (scenario_A @ scenario_B @ take 1 scenario_C) (init 1)"
             and ?cs0.0 = "scenario_A @ scenario_B" and d = 1 and j = 1 and cs = scenario_C]
        set_status_state_machine
          [where env = "\<lparr>msg_sender = 3, block_timestamp = 160\<rparr>" and i = 1
             and new_status = Collected
             and s = "run (scenario_A @ scenario_B @ take 2 scenario_C) (init 1)"
             and ?cs0.0 = "scenario_A @ scenario_B @ take 2 scenario_C" and d = 1 and j = 1
             and cs = "drop 2 scenario_C"]
  by (simp add: run_append scenario_A_state scenario_B_def scenario_C_def call_def op_eqs
        role_defs has_role_def allowed_transitions_def empty_Evidence_def)

section \<open>The custody chain\<close>

text \<open>
  C4. In every storage reached from deployment, the custody history of an evidence that
  exists is not empty, its first entry comes from the zero address, each entry hands over
  to the address the next entry comes from, and the last entry hands over to the current
  custodian. No list of transactions reorders or shortens a history: the old one is a
  prefix of the new one.
\<close>

theorem custody_chain_invariant:
  fixes cs0 cs :: "(Env \<times> Op) list" and d :: address
  defines "s \<equiv> run cs0 (init d)"
  shows "(exists (evidences s i) \<longrightarrow>
            custody_history s i \<noteq> [] \<and>
            from_address (hd (custody_history s i)) = 0 \<and>
            (\<forall>k. Suc k < length (custody_history s i) \<longrightarrow>
               to_address (custody_history s i ! k) = from_address (custody_history s i ! Suc k)) \<and>
            to_address (last (custody_history s i)) = current_custodian (evidences s i)) \<and>
         prefix (custody_history s i) (custody_history (run cs s) i)"
proof -
  have w: "wf s" unfolding s_def by (rule wf_reachable)
  have "custody_ok (custody_history s i) (current_custodian (evidences s i))"
    if "exists (evidences s i)"
    using w that by (simp add: wf_def)
  then show ?thesis
    using run_history_prefix [of s i cs] by (auto simp: custody_ok_def chain_linked_nth)
qed

theorem custody_chain_invariant_witness:
  "exists (evidences (run (scenario_A @ scenario_B) (init 1)) 1) \<and>
   custody_history (run (scenario_A @ scenario_B) (init 1)) 1 =
     [\<lparr>from_address = 0, to_address = 2, timestamp = 110, reason = ''Initial registration''\<rparr>,
      \<lparr>from_address = 2, to_address = 3, timestamp = 130, reason = ''handoff''\<rparr>] \<and>
   to_address (custody_history (run (scenario_A @ scenario_B) (init 1)) 1 ! 0) =
     from_address (custody_history (run (scenario_A @ scenario_B) (init 1)) 1 ! Suc 0) \<and>
   to_address (last (custody_history (run (scenario_A @ scenario_B) (init 1)) 1)) =
     current_custodian (evidences (run (scenario_A @ scenario_B) (init 1)) 1) \<and>
   prefix (custody_history (run (scenario_A @ scenario_B) (init 1)) 1)
     (custody_history (run scenario_C (run (scenario_A @ scenario_B) (init 1))) 1)"
  using custody_chain_invariant
          [where ?cs0.0 = "scenario_A @ scenario_B" and d = 1 and i = 1 and cs = scenario_C]
  by (simp add: scenario_AB_state)

section \<open>Duplicate digests\<close>




section \<open>Custody transfer\<close>

text \<open>
  C6, as amended. \<open>transfer_custody\<close> returns exactly when the evidence exists, the
  caller is its current custodian, the new custodian is not the zero address, is not the
  caller and holds some role, the reason is not empty and at most 200 bytes long, and the
  custody history holds fewer than 1000 entries. A reason of more than 200 bytes reverts
  at decoding. With a reason within the bound, an unknown evidence reverts with "Evidence
  does not exist" and a caller who is not the custodian of an existing evidence with "Not
  custodian" (the authorization failure), whatever roles it holds. On return the history
  has gained the entry from the old custodian to the new one, with the reason and the
  block time, the new custodian is the current one, and nothing else has changed but the
  log.
\<close>

theorem transfer_custody_conditions:
  "((\<exists>s'. transfer_custody env i new_custodian rsn s = Inr s') \<longleftrightarrow>
      exists (evidences s i) \<and> current_custodian (evidences s i) = msg_sender env \<and>
      new_custodian \<noteq> 0 \<and> new_custodian \<noteq> msg_sender env \<and> roles s new_custodian \<noteq> 0 \<and>
      rsn \<noteq> [] \<and> length rsn \<le> 200 \<and> length (custody_history s i) < 1000) \<and>
   (200 < length rsn \<longrightarrow>
      transfer_custody env i new_custodian rsn s = Inl Argument_too_long) \<and>
   (length rsn \<le> 200 \<and> \<not> exists (evidences s i) \<longrightarrow>
      transfer_custody env i new_custodian rsn s = Inl Evidence_does_not_exist) \<and>
   (length rsn \<le> 200 \<and> exists (evidences s i) \<and>
    current_custodian (evidences s i) \<noteq> msg_sender env \<longrightarrow>
      transfer_custody env i new_custodian rsn s = Inl Not_custodian) \<and>
   (transfer_custody env i new_custodian rsn s = Inr s' \<longrightarrow>
      s' = s\<lparr>custody_history := (custody_history s)(i := custody_history s i @
                [\<lparr>from_address = current_custodian (evidences s i), to_address = new_custodian,
                  timestamp = block_timestamp env, reason = rsn\<rparr>]),
            evidences := (evidences s)(i := (evidences s i)\<lparr>current_custodian := new_custodian\<rparr>),
            logs := logs s @ [CustodyTransferred i (current_custodian (evidences s i))
                      new_custodian rsn (block_timestamp env)]\<rparr> \<and>
      custody_history s' i = custody_history s i @
                [\<lparr>from_address = current_custodian (evidences s i), to_address = new_custodian,
                  timestamp = block_timestamp env, reason = rsn\<rparr>] \<and>
      current_custodian (evidences s' i) = new_custodian)"
  by (auto simp: transfer_custody_eq)

theorem transfer_custody_conditions_witness:
  "transfer_custody \<lparr>msg_sender = 2, block_timestamp = 130\<rparr> 1 3 ''handoff''
      (run (scenario_A @ scenario_B_grant) (init 1)) =
     Inr (run (scenario_A @ scenario_B) (init 1)) \<and>
   custody_history (run (scenario_A @ scenario_B) (init 1)) 1 =
     custody_history (run (scenario_A @ scenario_B_grant) (init 1)) 1 @
       [\<lparr>from_address = 2, to_address = 3, timestamp = 130, reason = ''handoff''\<rparr>] \<and>
   current_custodian (evidences (run (scenario_A @ scenario_B) (init 1)) 1) = 3 \<and>
   roles (run (scenario_A @ scenario_B_grant) (init 1)) 1 = 15 \<and>
   transfer_custody \<lparr>msg_sender = 1, block_timestamp = 130\<rparr> 1 3 ''handoff''
      (run (scenario_A @ scenario_B_grant) (init 1)) = Inl Not_custodian \<and>
   transfer_custody \<lparr>msg_sender = 2, block_timestamp = 130\<rparr> 4 3 ''handoff''
      (run (scenario_A @ scenario_B_grant) (init 1)) = Inl Evidence_does_not_exist \<and>
   transfer_custody \<lparr>msg_sender = 2, block_timestamp = 130\<rparr> 1 3 (replicate 201 CHR ''x'')
      (run (scenario_A @ scenario_B_grant) (init 1)) = Inl Argument_too_long"
proof -
  let ?s = "run (scenario_A @ scenario_B_grant) (init 1)"
  have ok: "transfer_custody \<lparr>msg_sender = 2, block_timestamp = 130\<rparr> 1 3 ''handoff'' ?s =
     Inr (run (scenario_A @ scenario_B) (init 1))"
    by (simp add: scenario_A_lab_state scenario_AB_state scenario_A_state transfer_custody_eq)
  have cust: "exists (evidences ?s 1) \<and> current_custodian (evidences ?s 1) = 2 \<and>
      \<not> exists (evidences ?s 4) \<and> roles ?s 1 = 15"
    by (simp add: scenario_A_lab_state scenario_A_state empty_Evidence_def)
  from transfer_custody_conditions
          [where env = "\<lparr>msg_sender = 2, block_timestamp = 130\<rparr>" and i = 1
             and new_custodian = 3 and rsn = "''handoff''" and s = ?s
             and s' = "run (scenario_A @ scenario_B) (init 1)"]
        transfer_custody_conditions
          [where env = "\<lparr>msg_sender = 1, block_timestamp = 130\<rparr>" and i = 1
             and new_custodian = 3 and rsn = "''handoff''" and s = ?s]
        transfer_custody_conditions
          [where env = "\<lparr>msg_sender = 2, block_timestamp = 130\<rparr>" and i = 4
             and new_custodian = 3 and rsn = "''handoff''" and s = ?s]
        transfer_custody_conditions
          [where env = "\<lparr>msg_sender = 2, block_timestamp = 130\<rparr>" and i = 1
             and new_custodian = 3 and rsn = "replicate 201 CHR ''x''" and s = ?s]
        ok cust
  show ?thesis by simp
qed

text \<open>
  C6 as stated fails when the history is full and when the reason is too long. In
  \<open>full_history_state\<close>, reached from deployment by a registration and 999 transfers,
  evidence 1 exists, the caller 3 is its custodian, the new custodian 2 is not zero, not
  the caller and holds a role, the reason is not empty, and the transfer reverts. And
  after scenario A and the grant of \<open>ROLE_LAB\<close> to 3, the custodian 2 of evidence 1,
  whose history has one entry, transfers it to 3 with a reason of 201 bytes, and the
  transfer reverts.
\<close>

theorem transfer_custody_unlisted_bounds_counterexample:
  "exists (evidences full_history_state 1) \<and>
   current_custodian (evidences full_history_state 1) = 3 \<and>
   (2 :: address) \<noteq> 0 \<and> (2 :: address) \<noteq> 3 \<and>
   roles full_history_state 2 \<noteq> 0 \<and> ''handoff'' \<noteq> [] \<and>
   transfer_custody \<lparr>msg_sender = 3, block_timestamp = 300\<rparr> 1 2 ''handoff''
     full_history_state = Inl DynArray_full \<and>
   exists (evidences (run (scenario_A @ scenario_B_grant) (init 1)) 1) \<and>
   current_custodian (evidences (run (scenario_A @ scenario_B_grant) (init 1)) 1) = 2 \<and>
   (3 :: address) \<noteq> 0 \<and> (3 :: address) \<noteq> 2 \<and>
   roles (run (scenario_A @ scenario_B_grant) (init 1)) 3 \<noteq> 0 \<and>
   replicate 201 CHR ''x'' \<noteq> [] \<and>
   length (custody_history (run (scenario_A @ scenario_B_grant) (init 1)) 1) = 1 \<and>
   transfer_custody \<lparr>msg_sender = 2, block_timestamp = 130\<rparr> 1 3 (replicate 201 CHR ''x'')
     (run (scenario_A @ scenario_B_grant) (init 1)) = Inl Argument_too_long"
  using full_history_state_facts
  by (simp add: transfer_custody_eq scenario_A_lab_state scenario_A_state)

section \<open>Registration\<close>

text \<open>
  C7, as amended in the reason string. Let \<open>register_evidence\<close> return the id \<open>n\<close>
  from a storage reached from deployment. Then \<open>n\<close> is the old counter plus one, without
  wrap-around, and the new counter; every id in use before is smaller, and the counter
  never decreases afterwards. The new record has status \<open>Collected\<close>, the caller as
  creator and custodian, and the block time; the digest was not registered and now is; the
  history of \<open>n\<close> is the single entry from the zero address to the caller with the
  reason "Initial registration"; the caller holds \<open>ROLE_POLICE\<close> and digest,
  description, case id and locator are not empty and within their bounds. Every other record and history, the
  files and the roles are as before.
\<close>

theorem register_evidence_effect:
  fixes cs0 cs :: "(Env \<times> Op) list" and d :: address
  defines "s \<equiv> run cs0 (init d)"
  assumes "register_evidence env h cid descr cas s = Inr (s', n)"
  shows "n = evidence_counter s + 1 \<and> unat n = unat (evidence_counter s) + 1 \<and>
         evidence_counter s' = n \<and>
         (\<forall>j. exists (evidences s j) \<longrightarrow> j < n) \<and>
         evidence_counter s' \<le> evidence_counter (run cs s') \<and>
         evidences s' n = \<lparr>ev_id = n, file_hash = h, ipfs_cid = cid, description = descr,
            case_id = cas, creator = msg_sender env, current_custodian = msg_sender env,
            created_at = block_timestamp env, status = Collected, exists = True\<rparr> \<and>
         \<not> registered_hashes s h \<and> registered_hashes s' h \<and>
         custody_history s' n = [\<lparr>from_address = 0, to_address = msg_sender env,
            timestamp = block_timestamp env, reason = ''Initial registration''\<rparr>] \<and>
         has_role s (msg_sender env) ROLE_POLICE \<and> h \<noteq> 0 \<and> descr \<noteq> [] \<and> cas \<noteq> [] \<and>
         cid \<noteq> [] \<and> length descr \<le> 500 \<and> length cas \<le> 50 \<and> length cid \<le> 100 \<and>
         (\<forall>j. j \<noteq> n \<longrightarrow> evidences s' j = evidences s j \<and>
            custody_history s' j = custody_history s j) \<and>
         evidence_files s' = evidence_files s \<and> roles s' = roles s \<and> admin s' = admin s \<and>
         logs s' = logs s @ [EvidenceRegistered n h cid cas (msg_sender env) (block_timestamp env)]"
proof -
  have w: "wf s" unfolding s_def by (rule wf_reachable)
  from register_evidence_wf_result [OF w assms(2)]
  have n: "n = evidence_counter s + 1" and ovf: "evidence_counter s \<noteq> - 1"
    and empty: "custody_history s n = []" by blast+
  have below: "j < n" if "exists (evidences s j)" for j
  proof -
    from w that have "j \<le> evidence_counter s" by (simp add: wf_def)
    with counter_less_succ [OF ovf] n show ?thesis by simp
  qed
  from assms(2) n ovf empty
  have rest: "evidence_counter s' = n \<and>
         evidences s' n = \<lparr>ev_id = n, file_hash = h, ipfs_cid = cid, description = descr,
            case_id = cas, creator = msg_sender env, current_custodian = msg_sender env,
            created_at = block_timestamp env, status = Collected, exists = True\<rparr> \<and>
         \<not> registered_hashes s h \<and> registered_hashes s' h \<and>
         custody_history s' n = [\<lparr>from_address = 0, to_address = msg_sender env,
            timestamp = block_timestamp env, reason = ''Initial registration''\<rparr>] \<and>
         has_role s (msg_sender env) ROLE_POLICE \<and> h \<noteq> 0 \<and> descr \<noteq> [] \<and> cas \<noteq> [] \<and>
         cid \<noteq> [] \<and> length descr \<le> 500 \<and> length cas \<le> 50 \<and> length cid \<le> 100 \<and>
         (\<forall>j. j \<noteq> n \<longrightarrow> evidences s' j = evidences s j \<and>
            custody_history s' j = custody_history s j) \<and>
         evidence_files s' = evidence_files s \<and> roles s' = roles s \<and> admin s' = admin s \<and>
         logs s' = logs s @ [EvidenceRegistered n h cid cas (msg_sender env) (block_timestamp env)]"
    by (auto simp: register_evidence_eq has_role_def split: if_splits)
  from n unat_counter_succ [OF ovf] below rest run_counter_mono [of s' cs]
  show ?thesis by simp
qed

theorem register_evidence_effect_witness:
  "register_evidence \<lparr>msg_sender = 2, block_timestamp = 110\<rparr> 5 ''QmL1'' ''desc'' ''CASE-1''
      (run [hd scenario_A] (init 1)) = Inr (run scenario_A (init 1), 1) \<and>
   evidence_counter (run [hd scenario_A] (init 1)) = 0 \<and>
   evidence_counter (run scenario_A (init 1)) = 1 \<and>
   evidences (run scenario_A (init 1)) 1 =
     \<lparr>ev_id = 1, file_hash = 5, ipfs_cid = ''QmL1'', description = ''desc'',
      case_id = ''CASE-1'', creator = 2, current_custodian = 2, created_at = 110,
      status = Collected, exists = True\<rparr> \<and>
   registered_hashes (run scenario_A (init 1)) 5 \<and>
   custody_history (run scenario_A (init 1)) 1 =
     [\<lparr>from_address = 0, to_address = 2, timestamp = 110, reason = ''Initial registration''\<rparr>] \<and>
   has_role (run [hd scenario_A] (init 1)) 2 ROLE_POLICE"
proof -
  have reg: "register_evidence \<lparr>msg_sender = 2, block_timestamp = 110\<rparr> 5 ''QmL1'' ''desc''
      ''CASE-1'' (run [hd scenario_A] (init 1)) = Inr (run scenario_A (init 1), 1)"
    by (simp add: scenario_A_def call_def op_eqs init_def role_defs)
  have c0: "evidence_counter (run [hd scenario_A] (init 1)) = 0"
    by (simp add: scenario_A_def call_def op_eqs init_def role_defs)
  from register_evidence_effect
         [where ?cs0.0 = "[hd scenario_A]" and d = 1 and cs = "[]", OF reg] c0 reg
  show ?thesis by simp
qed

text \<open>
  C7 as stated fails on the reason of the first custody entry: the contract writes
  "Initial registration", with a capital I, not "initial registration".
\<close>

theorem register_evidence_reason_counterexample:
  "register_evidence \<lparr>msg_sender = 2, block_timestamp = 110\<rparr> 5 ''QmL1'' ''desc'' ''CASE-1''
      (run [hd scenario_A] (init 1)) = Inr (run scenario_A (init 1), 1) \<and>
   reason (hd (custody_history (run scenario_A (init 1)) 1)) = ''Initial registration'' \<and>
   reason (hd (custody_history (run scenario_A (init 1)) 1)) \<noteq> ''initial registration''"
  by (simp add: scenario_A_def call_def op_eqs init_def role_defs)

section \<open>Rejected calls\<close>

lemma precondition_failure:
  assumes "(False, k) \<in> set (amended_preconditions env op s)"
  shows "\<exists>r. exec env op s = Inl r \<and>
           (False, failure_of r) \<in> set (amended_preconditions env op s)"
proof (cases op)
  case (Grant_role account role)
  with assms show ?thesis
    by (auto simp: amended_preconditions_def grant_role_eq)
next
  case (Revoke_role account role)
  with assms show ?thesis
    by (auto simp: amended_preconditions_def revoke_role_eq)
next
  case (Register_evidence fhash cid descr cas)
  with assms show ?thesis
    by (auto simp: amended_preconditions_def register_evidence_eq has_role_def)
next
  case (Transfer_custody i nc rsn)
  with assms show ?thesis
    by (auto simp: amended_preconditions_def transfer_custody_eq)
next
  case (Set_status i st)
  with assms show ?thesis
    by (cases "status (evidences s i)"; cases st)
       (auto simp: amended_preconditions_def set_status_eq has_role_def allowed_transitions_def)
next
  case (Add_file_to_evidence i fhash cid ftype)
  with assms show ?thesis
    by (auto simp: amended_preconditions_def add_file_to_evidence_eq has_role_def)
qed

text \<open>
  C8, as amended. Take the preconditions of the six operations as the specification lists
  them, with the caller of \<open>grant_role\<close> and \<open>revoke_role\<close> required to be the admin
  address. When one of them fails, the call reverts, the kind of its failure is the kind
  of a precondition that fails, and the storage (all tables, the counter and the log) is
  what it was. And every call that reverts, for whatever reason, leaves the storage as it
  was.
\<close>

theorem rejected_call_changes_nothing:
  "((False, k) \<in> set (amended_preconditions env op s) \<longrightarrow>
      (\<exists>r. exec env op s = Inl r \<and>
         (False, failure_of r) \<in> set (amended_preconditions env op s)) \<and>
      call env op s = s) \<and>
   (exec env op s = Inl r' \<longrightarrow> call env op s = s)"
  using precondition_failure [of k env op s] exec_Inl_call [of env op s] by blast

theorem rejected_call_changes_nothing_witness:
  "(False, AuthorizationError) \<in> set (amended_preconditions
      \<lparr>msg_sender = 1, block_timestamp = 120\<rparr> (Transfer_custody 1 3 ''handoff'')
      (run scenario_A (init 1))) \<and>
   exec \<lparr>msg_sender = 1, block_timestamp = 120\<rparr> (Transfer_custody 1 3 ''handoff'')
      (run scenario_A (init 1)) = Inl Not_custodian \<and>
   failure_of Not_custodian = AuthorizationError \<and>
   call \<lparr>msg_sender = 1, block_timestamp = 120\<rparr> (Transfer_custody 1 3 ''handoff'')
      (run scenario_A (init 1)) = run scenario_A (init 1)"
proof -
  let ?s = "run scenario_A (init 1)"
  let ?env = "\<lparr>msg_sender = 1, block_timestamp = 120\<rparr>"
  have p: "(False, AuthorizationError) \<in> set (amended_preconditions ?env
      (Transfer_custody 1 3 ''handoff'') ?s)"
    by (simp add: amended_preconditions_def scenario_A_state)
  have e: "exec ?env (Transfer_custody 1 3 ''handoff'') ?s = Inl Not_custodian"
    by (simp add: scenario_A_state transfer_custody_eq)
  from rejected_call_changes_nothing
         [where k = AuthorizationError and env = ?env
            and op = "Transfer_custody 1 3 ''handoff''" and s = ?s] p
  have c: "call ?env (Transfer_custody 1 3 ''handoff'') ?s = ?s" by blast
  from p e c show ?thesis by simp
qed

text \<open>
  C8 as stated fails for \<open>grant_role\<close> and \<open>revoke_role\<close>. In \<open>role_admin_state\<close>
  the deployer 1 does not hold \<open>ROLE_ADMIN\<close>, so the stated precondition on the caller
  fails; yet its call of \<open>grant_role\<close> returns and gives the address 3 the role
  \<open>ROLE_POLICE\<close>.
\<close>

theorem rejected_call_stated_precondition_counterexample:
  "(False, AuthorizationError) \<in> set (stated_preconditions
      \<lparr>msg_sender = 1, block_timestamp = 0\<rparr> (Grant_role 3 ROLE_POLICE) role_admin_state) \<and>
   \<not> isl (exec \<lparr>msg_sender = 1, block_timestamp = 0\<rparr> (Grant_role 3 ROLE_POLICE)
      role_admin_state) \<and>
   roles role_admin_state 3 = 0 \<and>
   roles (call \<lparr>msg_sender = 1, block_timestamp = 0\<rparr> (Grant_role 3 ROLE_POLICE)
      role_admin_state) 3 = ROLE_POLICE \<and>
   call \<lparr>msg_sender = 1, block_timestamp = 0\<rparr> (Grant_role 3 ROLE_POLICE)
      role_admin_state \<noteq> role_admin_state"
proof -
  have a: "(False, AuthorizationError) \<in> set (stated_preconditions
      \<lparr>msg_sender = 1, block_timestamp = 0\<rparr> (Grant_role 3 ROLE_POLICE) role_admin_state) \<and>
   \<not> isl (exec \<lparr>msg_sender = 1, block_timestamp = 0\<rparr> (Grant_role 3 ROLE_POLICE)
      role_admin_state) \<and>
   roles role_admin_state 3 = 0 \<and>
   roles (call \<lparr>msg_sender = 1, block_timestamp = 0\<rparr> (Grant_role 3 ROLE_POLICE)
      role_admin_state) 3 = ROLE_POLICE"
    by (simp add: stated_preconditions_def role_admin_state_def call_def grant_role_eq
          revoke_role_eq init_def has_role_def role_defs)
  then have "roles (call \<lparr>msg_sender = 1, block_timestamp = 0\<rparr> (Grant_role 3 ROLE_POLICE)
      role_admin_state) 3 \<noteq> roles role_admin_state 3"
    by (simp add: role_defs)
  then have "call \<lparr>msg_sender = 1, block_timestamp = 0\<rparr> (Grant_role 3 ROLE_POLICE)
      role_admin_state \<noteq> role_admin_state"
    by auto
  with a show ?thesis by simp
qed

section \<open>Bounded lists\<close>

text \<open>
  C9. In every storage reached from deployment a custody history holds at most 1000
  entries and a file list at most 100. A transfer on a history of 1000 entries and an
  attachment to a list of 100 files revert (with the revert of \<open>append\<close>, when every
  other check holds and the strings are within their bounds; at decoding, when the other
  checks hold and a string is too long) and leave the storage as it was. No call drops
  or reorders entries: the old lists are prefixes of the new ones.
\<close>

theorem bounded_lists_fail_closed:
  fixes cs0 :: "(Env \<times> Op) list" and d :: address
  defines "s0 \<equiv> run cs0 (init d)"
  shows
  "length (custody_history s0 i) \<le> 1000 \<and> length (evidence_files s0 i) \<le> 100 \<and>
   (1000 \<le> length (custody_history s i) \<longrightarrow>
      isl (transfer_custody env i new_custodian rsn s) \<and>
      call env (Transfer_custody i new_custodian rsn) s = s) \<and>
   (1000 \<le> length (custody_history s i) \<and> exists (evidences s i) \<and>
    current_custodian (evidences s i) = msg_sender env \<and> new_custodian \<noteq> 0 \<and>
    new_custodian \<noteq> msg_sender env \<and> roles s new_custodian \<noteq> 0 \<and> rsn \<noteq> [] \<longrightarrow>
      transfer_custody env i new_custodian rsn s =
        Inl (if length rsn \<le> 200 then DynArray_full else Argument_too_long)) \<and>
   (100 \<le> length (evidence_files s i) \<longrightarrow>
      isl (add_file_to_evidence env i fhash cid ftype s) \<and>
      call env (Add_file_to_evidence i fhash cid ftype) s = s) \<and>
   (100 \<le> length (evidence_files s i) \<and> exists (evidences s i) \<and>
    has_role s (msg_sender env) ROLE_LAB \<and> fhash \<noteq> 0 \<and> cid \<noteq> [] \<and> ftype \<noteq> [] \<longrightarrow>
      add_file_to_evidence env i fhash cid ftype s =
        Inl (if length cid \<le> 100 \<and> length ftype \<le> 50 then DynArray_full
             else Argument_too_long)) \<and>
   prefix (custody_history s i) (custody_history (call env op s) i) \<and>
   prefix (evidence_files s i) (evidence_files (call env op s) i)"
proof -
  have w: "wf s0" unfolding s0_def by (rule wf_reachable)
  then have a: "length (custody_history s0 i) \<le> 1000 \<and> length (evidence_files s0 i) \<le> 100"
    by (simp add: wf_def)
  have b: "1000 \<le> length (custody_history s i) \<longrightarrow>
      isl (transfer_custody env i new_custodian rsn s) \<and>
      call env (Transfer_custody i new_custodian rsn) s = s"
    by (simp add: call_def transfer_custody_eq)
  have c: "1000 \<le> length (custody_history s i) \<and> exists (evidences s i) \<and>
    current_custodian (evidences s i) = msg_sender env \<and> new_custodian \<noteq> 0 \<and>
    new_custodian \<noteq> msg_sender env \<and> roles s new_custodian \<noteq> 0 \<and> rsn \<noteq> [] \<longrightarrow>
      transfer_custody env i new_custodian rsn s =
        Inl (if length rsn \<le> 200 then DynArray_full else Argument_too_long)"
    by (simp add: transfer_custody_eq)
  have d: "100 \<le> length (evidence_files s i) \<longrightarrow>
      isl (add_file_to_evidence env i fhash cid ftype s) \<and>
      call env (Add_file_to_evidence i fhash cid ftype) s = s"
    by (simp add: call_def add_file_to_evidence_eq)
  have e: "100 \<le> length (evidence_files s i) \<and> exists (evidences s i) \<and>
    has_role s (msg_sender env) ROLE_LAB \<and> fhash \<noteq> 0 \<and> cid \<noteq> [] \<and> ftype \<noteq> [] \<longrightarrow>
      add_file_to_evidence env i fhash cid ftype s =
        Inl (if length cid \<le> 100 \<and> length ftype \<le> 50 then DynArray_full
             else Argument_too_long)"
    by (simp add: add_file_to_evidence_eq has_role_def)
  from a b c d e call_history_prefix [of s i env op] call_files_prefix [of s i env op]
  show ?thesis by blast
qed

theorem bounded_lists_fail_closed_witness:
  "length (custody_history full_history_state 1) = 1000 \<and>
   transfer_custody \<lparr>msg_sender = 3, block_timestamp = 300\<rparr> 1 2 ''handoff''
     full_history_state = Inl DynArray_full \<and>
   call \<lparr>msg_sender = 3, block_timestamp = 300\<rparr> (Transfer_custody 1 2 ''handoff'')
     full_history_state = full_history_state \<and>
   length (evidence_files full_files_state 1) = 100 \<and>
   add_file_to_evidence \<lparr>msg_sender = 3, block_timestamp = 300\<rparr> 1 8 ''QmF2'' ''Lab Report''
     full_files_state = Inl DynArray_full \<and>
   call \<lparr>msg_sender = 3, block_timestamp = 300\<rparr> (Add_file_to_evidence 1 8 ''QmF2'' ''Lab Report'')
     full_files_state = full_files_state"
proof -
  have h: "1000 \<le> length (custody_history full_history_state 1) \<and>
      exists (evidences full_history_state 1) \<and>
      current_custodian (evidences full_history_state 1) =
        msg_sender \<lparr>msg_sender = 3, block_timestamp = 300\<rparr> \<and>
      (2 :: address) \<noteq> 0 \<and> 2 \<noteq> msg_sender \<lparr>msg_sender = 3, block_timestamp = 300\<rparr> \<and>
      roles full_history_state 2 \<noteq> 0 \<and> ''handoff'' \<noteq> []"
    using full_history_state_facts by simp
  have f: "100 \<le> length (evidence_files full_files_state 1) \<and>
      exists (evidences full_files_state 1) \<and>
      has_role full_files_state (msg_sender \<lparr>msg_sender = 3, block_timestamp = 300\<rparr>) ROLE_LAB \<and>
      (8 :: bytes32) \<noteq> 0 \<and> ''QmF2'' \<noteq> [] \<and> ''Lab Report'' \<noteq> []"
    using full_files_state_facts by (simp add: has_role_def role_defs)
  from bounded_lists_fail_closed
         [where s = full_history_state and i = 1 and new_custodian = 2
            and rsn = "''handoff''" and env = "\<lparr>msg_sender = 3, block_timestamp = 300\<rparr>"] h
  have r1: "transfer_custody \<lparr>msg_sender = 3, block_timestamp = 300\<rparr> 1 2 ''handoff''
        full_history_state = Inl DynArray_full \<and>
      call \<lparr>msg_sender = 3, block_timestamp = 300\<rparr> (Transfer_custody 1 2 ''handoff'')
        full_history_state = full_history_state"
    by simp
  from bounded_lists_fail_closed
         [where s = full_files_state and i = 1 and fhash = 8 and cid = "''QmF2''"
            and ftype = "''Lab Report''"
            and env = "\<lparr>msg_sender = 3, block_timestamp = 300\<rparr>"] f
  have r2: "add_file_to_evidence \<lparr>msg_sender = 3, block_timestamp = 300\<rparr> 1 8 ''QmF2''
        ''Lab Report'' full_files_state = Inl DynArray_full \<and>
      call \<lparr>msg_sender = 3, block_timestamp = 300\<rparr>
        (Add_file_to_evidence 1 8 ''QmF2'' ''Lab Report'') full_files_state = full_files_state"
    by simp
  from r1 r2 full_history_state_facts full_files_state_facts show ?thesis by simp
qed

section \<open>Transfers of terminal evidence\<close>

text \<open>
  C10, as amended. The status plays no part in \<open>transfer_custody\<close>: when the evidence
  exists, the caller is its custodian, the new custodian is nonzero, distinct and holds a
  role, the reason is not empty and at most 200 bytes long and the history holds fewer
  than 1000 entries, the transfer returns, whatever the status, with the entry appended
  and the custodian changed. And setting the status of the evidence to any \<open>st\<close> before the transfer
  gives the result of the transfer with the status set to \<open>st\<close> afterwards: the same
  revert, or the same storage up to that status.
\<close>

theorem transfer_custody_ignores_status:
  "(exists (evidences s i) \<and> current_custodian (evidences s i) = msg_sender env \<and>
    new_custodian \<noteq> 0 \<and> new_custodian \<noteq> msg_sender env \<and> roles s new_custodian \<noteq> 0 \<and>
    rsn \<noteq> [] \<and> length rsn \<le> 200 \<and> length (custody_history s i) < 1000 \<longrightarrow>
      transfer_custody env i new_custodian rsn s =
        Inr (s\<lparr>custody_history := (custody_history s)(i := custody_history s i @
                [\<lparr>from_address = current_custodian (evidences s i), to_address = new_custodian,
                  timestamp = block_timestamp env, reason = rsn\<rparr>]),
            evidences := (evidences s)(i := (evidences s i)\<lparr>current_custodian := new_custodian\<rparr>),
            logs := logs s @ [CustodyTransferred i (current_custodian (evidences s i))
                      new_custodian rsn (block_timestamp env)]\<rparr>)) \<and>
   transfer_custody env i new_custodian rsn
       (s\<lparr>evidences := (evidences s)(i := (evidences s i)\<lparr>status := st\<rparr>)\<rparr>) =
     map_sum (\<lambda>r. r)
       (\<lambda>s'. s'\<lparr>evidences := (evidences s')(i := (evidences s' i)\<lparr>status := st\<rparr>)\<rparr>)
       (transfer_custody env i new_custodian rsn s)"
  by (cases "evidences s i"; cases s) (simp add: transfer_custody_eq)

theorem transfer_custody_ignores_status_witness:
  "exists (evidences (run (scenario_A @ scenario_B @ scenario_C) (init 1)) 1) \<and>
   status (evidences (run (scenario_A @ scenario_B @ scenario_C) (init 1)) 1) = Archived \<and>
   transfer_custody \<lparr>msg_sender = 3, block_timestamp = 170\<rparr> 1 2 ''return''
       (run (scenario_A @ scenario_B @ scenario_C) (init 1)) =
     Inr ((run (scenario_A @ scenario_B @ scenario_C) (init 1))
       \<lparr>custody_history := (custody_history (run (scenario_A @ scenario_B @ scenario_C) (init 1)))
          (1 := custody_history (run (scenario_A @ scenario_B @ scenario_C) (init 1)) 1 @
             [\<lparr>from_address = 3, to_address = 2, timestamp = 170, reason = ''return''\<rparr>]),
        evidences := (evidences (run (scenario_A @ scenario_B @ scenario_C) (init 1)))
          (1 := (evidences (run (scenario_A @ scenario_B @ scenario_C) (init 1)) 1)
             \<lparr>current_custodian := 2\<rparr>),
        logs := logs (run (scenario_A @ scenario_B @ scenario_C) (init 1)) @
          [CustodyTransferred 1 3 2 ''return'' 170]\<rparr>)"
proof -
  let ?s = "run (scenario_A @ scenario_B @ scenario_C) (init 1)"
  let ?env = "\<lparr>msg_sender = 3, block_timestamp = 170\<rparr>"
  have h: "exists (evidences ?s 1) \<and> current_custodian (evidences ?s 1) = msg_sender ?env \<and>
    (2 :: address) \<noteq> 0 \<and> 2 \<noteq> msg_sender ?env \<and> roles ?s 2 \<noteq> 0 \<and>
    ''return'' \<noteq> [] \<and> length ''return'' \<le> 200 \<and> length (custody_history ?s 1) < 1000"
    using scenario_ABC_facts by simp
  from transfer_custody_ignores_status
         [where s = ?s and i = 1 and env = ?env and new_custodian = 2 and rsn = "''return''"] h
  have "transfer_custody ?env 1 2 ''return'' ?s =
        Inr (?s\<lparr>custody_history := (custody_history ?s)(1 := custody_history ?s 1 @
                [\<lparr>from_address = current_custodian (evidences ?s 1), to_address = 2,
                  timestamp = block_timestamp ?env, reason = ''return''\<rparr>]),
            evidences := (evidences ?s)(1 := (evidences ?s 1)\<lparr>current_custodian := 2\<rparr>),
            logs := logs ?s @ [CustodyTransferred 1 (current_custodian (evidences ?s 1))
                      2 ''return'' (block_timestamp ?env)]\<rparr>)"
    by blast
  with scenario_ABC_facts show ?thesis by simp
qed

text \<open>
  C10 as stated fails when the history is full and when the reason is too long. In
  \<open>archived_full_state\<close> evidence 1 is \<open>Archived\<close>, its custodian 3 transfers it to
  the enrolled address 2 with a reason, and the call reverts. And after scenarios A, B and
  C evidence 1 is \<open>Archived\<close> with a history of two entries; its custodian 3 transfers
  it to the enrolled address 2 with a reason of 201 bytes, and the call reverts.
\<close>

theorem transfer_custody_terminal_bounds_counterexample:
  "exists (evidences archived_full_state 1) \<and>
   status (evidences archived_full_state 1) = Archived \<and>
   current_custodian (evidences archived_full_state 1) = 3 \<and>
   (2 :: address) \<noteq> 0 \<and> (2 :: address) \<noteq> 3 \<and>
   roles archived_full_state 2 \<noteq> 0 \<and> ''handoff'' \<noteq> [] \<and>
   transfer_custody \<lparr>msg_sender = 3, block_timestamp = 300\<rparr> 1 2 ''handoff''
     archived_full_state = Inl DynArray_full \<and>
   exists (evidences (run (scenario_A @ scenario_B @ scenario_C) (init 1)) 1) \<and>
   status (evidences (run (scenario_A @ scenario_B @ scenario_C) (init 1)) 1) = Archived \<and>
   current_custodian (evidences (run (scenario_A @ scenario_B @ scenario_C) (init 1)) 1) = 3 \<and>
   roles (run (scenario_A @ scenario_B @ scenario_C) (init 1)) 2 \<noteq> 0 \<and>
   replicate 201 CHR ''x'' \<noteq> [] \<and>
   length (custody_history (run (scenario_A @ scenario_B @ scenario_C) (init 1)) 1) = 2 \<and>
   transfer_custody \<lparr>msg_sender = 3, block_timestamp = 300\<rparr> 1 2 (replicate 201 CHR ''x'')
     (run (scenario_A @ scenario_B @ scenario_C) (init 1)) = Inl Argument_too_long"
  using full_history_state_facts scenario_ABC_facts
  by (simp add: archived_full_state_eq transfer_custody_eq)

end
